theory Spec2Isabelle
  imports Complex_Main "HOL-Library.Multiset"
begin

section \<open>Cell values and the Python primitives applied to them\<close>

text \<open>
  A cell of the parsed sheet is missing, a number or a text. pandas has two missing
  markers that the program meets: \<open>NaN\<close>, the float that \<open>read_excel\<close> puts in an
  empty cell and that \<open>to_numeric(errors='coerce')\<close> puts in place of what it cannot
  parse, and \<open>NA\<close> (\<open>pd.NA\<close>), which line 110 of main.py stores in every column it
  has to create. They differ where the program asks for a truth value or a string, so
  the model keeps them apart. Numbers are reals (ints and finite floats); infinities,
  booleans and timestamps are outside the model.

  A row is a map from column name to cell; \<open>row col = None\<close> is what \<open>row.get(col)\<close>
  returns for a column the frame does not have (Python's \<open>None\<close>).
\<close>

datatype cell = NaN | NA | Num real | Text string

type_synonym row = "string \<rightharpoonup> cell"

datatype py_error = TypeError | KeyError

text \<open>
  Two library functions are parameters of the model: \<open>num_str\<close> is Python's \<open>str\<close> on a
  number, and \<open>to_numeric\<close> is the number pandas reads from a text cell (\<open>None\<close> when it
  reads none, or reads NaN).
\<close>

record pylib =
  num_str :: "real \<Rightarrow> string"
  to_numeric :: "string \<Rightarrow> real option"

fun pd_isna :: "cell option \<Rightarrow> bool" where
  "pd_isna None = True"
| "pd_isna (Some NaN) = True"
| "pd_isna (Some NA) = True"
| "pd_isna (Some (Num x)) = False"
| "pd_isna (Some (Text s)) = False"

definition pd_notna :: "cell option \<Rightarrow> bool" where
  "pd_notna v = (\<not> pd_isna v)"

text \<open>\<open>isinstance(val, (int, float))\<close>: NaN is a float.\<close>

fun is_number :: "cell option \<Rightarrow> bool" where
  "is_number (Some (Num x)) = True"
| "is_number (Some NaN) = True"
| "is_number v = False"

text \<open>
  \<open>float(val) != 0\<close> and \<open>val < 0\<close>, which the program evaluates on numbers only
  (\<open>nan != 0\<close> holds and \<open>nan < 0\<close> does not); the last equations are never reached.
\<close>

fun float_ne_zero :: "cell option \<Rightarrow> bool" where
  "float_ne_zero (Some (Num x)) = (x \<noteq> 0)"
| "float_ne_zero (Some NaN) = True"
| "float_ne_zero v = False"

fun less_zero :: "cell option \<Rightarrow> bool" where
  "less_zero (Some (Num x)) = (x < 0)"
| "less_zero v = False"

fun py_str :: "pylib \<Rightarrow> cell option \<Rightarrow> string" where
  "py_str lib None = ''None''"
| "py_str lib (Some NaN) = ''nan''"
| "py_str lib (Some NA) = ''<NA>''"
| "py_str lib (Some (Num x)) = num_str lib x"
| "py_str lib (Some (Text s)) = s"

text \<open>
  The truth value Python takes of a value in \<open>val or ''\<close>: \<open>None\<close>, zero and the empty
  string are false, NaN is a non-zero float and so true, and \<open>pd.NA\<close> raises
  \<open>TypeError: boolean value of NA is ambiguous\<close>.
\<close>

fun py_bool :: "cell option \<Rightarrow> py_error + bool" where
  "py_bool None = Inr False"
| "py_bool (Some NaN) = Inr True"
| "py_bool (Some NA) = Inl TypeError"
| "py_bool (Some (Num x)) = Inr (x \<noteq> 0)"
| "py_bool (Some (Text s)) = Inr (s \<noteq> [])"

definition py_or :: "cell option \<Rightarrow> cell option \<Rightarrow> py_error + cell option" where
  "py_or a b = (case py_bool a of Inl e \<Rightarrow> Inl e | Inr t \<Rightarrow> Inr (if t then a else b))"

subsection \<open>Strings\<close>

text \<open>
  Strings are lists of 8-bit characters. \<open>str.strip()\<close> removes the ASCII characters for
  which \<open>str.isspace\<close> holds from both ends, and \<open>str.upper()\<close> maps the ASCII lower-case
  letters; Unicode whitespace and case mappings beyond ASCII are outside the model.
\<close>

definition whitespace :: "char list" where
  "whitespace = [CHR '' '', CHR 0x09, CHR 0x0A, CHR 0x0B, CHR 0x0C, CHR 0x0D,
                 CHR 0x1C, CHR 0x1D, CHR 0x1E, CHR 0x1F]"

definition strip :: "string \<Rightarrow> string" where
  "strip s = rev (dropWhile (\<lambda>c. c \<in> set whitespace) (rev (dropWhile (\<lambda>c. c \<in> set whitespace) s)))"

definition upper_char :: "char \<Rightarrow> char" where
  "upper_char c =
     (case map_of (zip ''abcdefghijklmnopqrstuvwxyz'' ''ABCDEFGHIJKLMNOPQRSTUVWXYZ'') c of
        None \<Rightarrow> c | Some u \<Rightarrow> u)"

definition upper :: "string \<Rightarrow> string" where
  "upper s = map upper_char s"

fun join :: "string \<Rightarrow> string list \<Rightarrow> string" where
  "join sep [] = []"
| "join sep [x] = x"
| "join sep (x # y # ys) = x @ sep @ join sep (y # ys)"

section \<open>The column catalog (main.py, lines 17 to 36)\<close>

definition REQUIRED_OPERATIONAL_COLS :: "string list" where
  "REQUIRED_OPERATIONAL_COLS =
     [''Flock'', ''Date'', ''Animal Mortality'', ''Animals Culled'', ''Table Eggs Prod'',
      ''Animal Feed Formula Name'', ''Supplied Feed'', ''Feed Received (Kg)'',
      ''Animal Feed Consumed'', ''Water Consumption'',
      ''Animal Weight'', ''Animal Uniformity'', ''Animal CV Uniformity'',
      ''Female Feed Formula ID'', ''Temperature Low'', ''Ammonia Level'',
      ''Animal Feed Inventory'', ''Female Feed Type ID'',
      ''Light_Duration (HU)'', ''Light intensity %'']"

definition OPTIONAL_OPERATIONAL_COLS :: "string list" where
  "OPTIONAL_OPERATIONAL_COLS = [''Animal Weight'', ''Animal Uniformity'', ''Animal CV Uniformity'']"

definition REQUIRED_CARE_COLS :: "string list" where
  "REQUIRED_CARE_COLS =
     [''Vaccination'', ''Creation User ID'', ''Medication'', ''Vacc Method'',
      ''Vacc Type'', ''VaccinevDoze'', ''Medication Batch'', ''Concentration %'',
      ''Record Source Type'', ''Medication Dose'', ''Medication Exp Date'',
      ''Doctor Name'', ''Doses Unit'', ''Produced PS_Nest_HE'', ''Vaccine Name'']"

section \<open>Row classifier and row validators (lines 44 to 94)\<close>

text \<open>The loop of \<open>is_operational_row\<close>, over the columns still to visit.\<close>

fun is_operational_loop :: "pylib \<Rightarrow> row \<Rightarrow> string list \<Rightarrow> bool" where
  "is_operational_loop lib row [] = False"
| "is_operational_loop lib row (col # cols) =
     (if col \<in> set (OPTIONAL_OPERATIONAL_COLS @ [''Flock'', ''Date''])
      then is_operational_loop lib row cols
      else let val = row col in
        if pd_notna val then
          (if is_number val then
             (if float_ne_zero val then True else is_operational_loop lib row cols)
           else if strip (py_str lib val) \<notin> set [[], ''0'', ''nan'', ''NaN''] then True
           else is_operational_loop lib row cols)
        else is_operational_loop lib row cols)"

definition is_operational_row :: "pylib \<Rightarrow> row \<Rightarrow> bool" where
  "is_operational_row lib row = is_operational_loop lib row REQUIRED_OPERATIONAL_COLS"

text \<open>The first loop of \<open>check_operational_row\<close>; \<open>errors\<close> is the list built so far.\<close>

fun operational_errors :: "pylib \<Rightarrow> row \<Rightarrow> string list \<Rightarrow> string list \<Rightarrow> string list" where
  "operational_errors lib row [] errors = errors"
| "operational_errors lib row (col # cols) errors =
     (if col \<in> set (OPTIONAL_OPERATIONAL_COLS @ [''Flock'', ''Date''])
      then operational_errors lib row cols errors
      else let val = row col in
        if pd_isna val \<or> strip (py_str lib val) = []
        then operational_errors lib row cols (errors @ [''Missing '' @ col])
        else if is_number val \<and> less_zero val
        then operational_errors lib row cols (errors @ [''Negative value in '' @ col])
        else operational_errors lib row cols errors)"

text \<open>The second loop, over \<open>['Flock', 'Date']\<close>.\<close>

fun key_errors :: "pylib \<Rightarrow> row \<Rightarrow> string list \<Rightarrow> string list \<Rightarrow> string list" where
  "key_errors lib row [] errors = errors"
| "key_errors lib row (col # cols) errors =
     (let val = row col in
        if pd_isna val \<or> strip (py_str lib val) = []
        then key_errors lib row cols (errors @ [''Missing '' @ col])
        else key_errors lib row cols errors)"

definition check_operational_row :: "pylib \<Rightarrow> row \<Rightarrow> string option" where
  "check_operational_row lib row =
     (let errors = operational_errors lib row REQUIRED_OPERATIONAL_COLS [];
          errors = key_errors lib row [''Flock'', ''Date''] errors
      in if errors \<noteq> [] then Some (join ''; '' errors) else None)"

text \<open>The loop of \<open>check_care_row\<close> over the care columns.\<close>

fun care_errors :: "pylib \<Rightarrow> row \<Rightarrow> string list \<Rightarrow> string list \<Rightarrow> string list" where
  "care_errors lib row [] errors = errors"
| "care_errors lib row (col # cols) errors =
     (if col \<in> set [''Vaccination'', ''Medication'']
      then care_errors lib row cols errors
      else let val = row col in
        if pd_isna val \<or> strip (py_str lib val) = []
        then care_errors lib row cols (errors @ [''Missing '' @ col])
        else care_errors lib row cols errors)"

definition check_care_row :: "pylib \<Rightarrow> row \<Rightarrow> py_error + (string option \<times> string)" where
  "check_care_row lib row =
     (case py_or (row ''Vaccination'') (Some (Text [])) of
        Inl e \<Rightarrow> Inl e
      | Inr v \<Rightarrow>
     (case py_or (row ''Medication'') (Some (Text [])) of
        Inl e \<Rightarrow> Inl e
      | Inr m \<Rightarrow>
        (let vacc = strip (py_str lib v);
             med = strip (py_str lib m);
             errors = (if vacc = [] \<and> med = [] then [''Missing Vaccination and Medication'']
                       else []);
             note = (if vacc = [] \<and> med = [] then []
                     else if vacc \<noteq> [] \<and> med = []
                     then ''Note: Only vaccination recorded, no medication data entered.''
                     else if med \<noteq> [] \<and> vacc = []
                     then ''Note: Only medication recorded, no vaccination data entered.''
                     else []);
             errors = care_errors lib row REQUIRED_CARE_COLS errors
         in Inr (if errors \<noteq> [] then Some (join ''; '' errors) else None, note))))"

section \<open>Schema normalisation (lines 109 to 115)\<close>

text \<open>
  The frame is the list of its rows, taken after the headers were trimmed (line 107). A
  sheet that lacks a column is a frame all of whose rows map that column to \<open>None\<close>.
  Line 110 stores \<open>pd.NA\<close> in each catalog column the frame lacks; line 115 replaces the
  numeric columns by what \<open>pd.to_numeric(..., errors='coerce')\<close> makes of them.
\<close>

definition add_missing_columns :: "row \<Rightarrow> row" where
  "add_missing_columns row =
     fold (\<lambda>col r. if r col = None then r(col \<mapsto> NA) else r)
       (REQUIRED_OPERATIONAL_COLS @ REQUIRED_CARE_COLS) row"

fun pd_to_numeric :: "pylib \<Rightarrow> cell \<Rightarrow> cell" where
  "pd_to_numeric lib (Num x) = Num x"
| "pd_to_numeric lib (Text s) = (case to_numeric lib s of None \<Rightarrow> NaN | Some x \<Rightarrow> Num x)"
| "pd_to_numeric lib NaN = NaN"
| "pd_to_numeric lib NA = NaN"

definition coerce_numeric :: "pylib \<Rightarrow> row \<Rightarrow> row" where
  "coerce_numeric lib row =
     fold (\<lambda>col r.
         if col \<notin> set OPTIONAL_OPERATIONAL_COLS \<and>
            col \<notin> set [''Flock'', ''Date'', ''Animal Feed Formula Name'', ''Supplied Feed'',
                        ''Female Feed Formula ID'', ''Female Feed Type ID'']
         then r(col := map_option (pd_to_numeric lib) (r col)) else r)
       REQUIRED_OPERATIONAL_COLS row"

definition normalize_row :: "pylib \<Rightarrow> row \<Rightarrow> row" where
  "normalize_row lib row = coerce_numeric lib (add_missing_columns row)"

definition normalize :: "pylib \<Rightarrow> row list \<Rightarrow> row list" where
  "normalize lib t = map (normalize_row lib) t"

section \<open>Duplicate detection (lines 123 to 148)\<close>

text \<open>
  \<open>DataFrame.duplicated(subset=..., keep=False)\<close> marks every row whose key occurs more
  than once. pandas groups all missing values of a column together, which \<open>na_key\<close>
  expresses for the raw \<open>(Flock, Date)\<close> key of the operational frame.
\<close>

definition duplicated :: "'k list \<Rightarrow> bool list" where
  "duplicated ks = map (\<lambda>k. 2 \<le> count_list ks k) ks"

definition na_key :: "cell option \<Rightarrow> cell option" where
  "na_key v = (if pd_isna v then None else v)"

definition operational_key :: "row \<Rightarrow> cell option \<times> cell option" where
  "operational_key row = (na_key (row ''Flock''), na_key (row ''Date''))"

text \<open>The tuple that the lambda of lines 131 to 142 builds, as the list of its ten strings.\<close>

definition care_key :: "pylib \<Rightarrow> row \<Rightarrow> string list" where
  "care_key lib r =
     [upper (strip (py_str lib (r ''Flock''))),
      strip (py_str lib (r ''Date'')),
      (if pd_notna (r ''Vaccination'') then upper (strip (py_str lib (r ''Vaccination''))) else []),
      (if pd_notna (r ''Vacc Method'') then upper (strip (py_str lib (r ''Vacc Method''))) else []),
      (if pd_notna (r ''Vacc Type'') then upper (strip (py_str lib (r ''Vacc Type''))) else []),
      (if pd_notna (r ''VaccinevDoze'') then upper (strip (py_str lib (r ''VaccinevDoze''))) else []),
      (if pd_notna (r ''Medication'') then upper (strip (py_str lib (r ''Medication''))) else []),
      (if pd_notna (r ''Medication Dose'') then upper (strip (py_str lib (r ''Medication Dose''))) else []),
      (if pd_notna (r ''Medication Batch'') then upper (strip (py_str lib (r ''Medication Batch''))) else []),
      (if pd_notna (r ''Medication Exp Date'') then strip (py_str lib (r ''Medication Exp Date'')) else [])]"

section \<open>Result assembly (lines 150 to 172)\<close>

text \<open>
  An output record is a dictionary from column name to value: a cell of the frame, a
  Python \<open>None\<close> (\<open>Null\<close>), a boolean, a string or the care key tuple. Assigning a column
  of a frame updates every row's dictionary at that name.
\<close>

datatype outval = Cell cell | Null | Flag bool | Str string | Tuple "string list"

type_synonym out_row = "string \<rightharpoonup> outval"

definition to_frame :: "row list \<Rightarrow> out_row list" where
  "to_frame rows = map (\<lambda>r. map_option Cell \<circ> r) rows"

definition set_column :: "string \<Rightarrow> outval list \<Rightarrow> out_row list \<Rightarrow> out_row list" where
  "set_column name vals df = map (\<lambda>(r, v). r(name \<mapsto> v)) (zip df vals)"

definition details_val :: "string option \<Rightarrow> outval" where
  "details_val e = (case e of None \<Rightarrow> Null | Some s \<Rightarrow> Str s)"

text \<open>
  \<open>Series.astype(str)\<close> on the object column of error details (pandas 1 and 2): a string
  stays, and \<open>None\<close> becomes the text \<open>None\<close>.
\<close>

definition astype_str :: "string option \<Rightarrow> string" where
  "astype_str e = (case e of None \<Rightarrow> ''None'' | Some s \<Rightarrow> s)"

text \<open>
  \<open>DataFrame.to_dict(orient='records')\<close> (lines 166 and 167) gives one dictionary per
  row; a \<open>pd.NA\<close> of the frame comes out of it as \<open>None\<close>.
\<close>

definition box_na :: "out_row \<Rightarrow> out_row" where
  "box_na r = (\<lambda>k. case r k of Some (Cell NA) \<Rightarrow> Some Null | v \<Rightarrow> v)"

definition to_dict :: "out_row list \<Rightarrow> out_row list" where
  "to_dict df = map box_na df"

definition clean_nan_inf :: "out_row \<Rightarrow> out_row" where
  "clean_nan_inf r = (\<lambda>k. case r k of Some (Cell NaN) \<Rightarrow> Some Null | v \<Rightarrow> v)"

text \<open>
  Lines 123 to 126, 151 to 155 and 166, on the operational frame. The validators read
  catalog columns only, which none of the added columns shadows, so they are run on the
  rows of the frame; a column that the code assigns twice is set once, to its final
  values.
\<close>

definition operational_records :: "pylib \<Rightarrow> row list \<Rightarrow> out_row list" where
  "operational_records lib operational_df =
     (let dup = (if operational_df \<noteq> [] then duplicated (map operational_key operational_df)
                 else []);
          details = map (check_operational_row lib) operational_df;
          has_error = map (\<lambda>e. e \<noteq> None \<and> e \<noteq> Some []) details;
          has_error = map2 (\<lambda>d h. if d then True else h) dup has_error;
          details = map2 (\<lambda>d e. if d then Some (astype_str e @ ''; Duplicate Flock/Date'') else e)
                      dup details;
          df = set_column ''Duplicate Error'' (map Flag dup) (to_frame operational_df);
          df = set_column ''Error Details'' (map details_val details) df;
          df = set_column ''has_error'' (map Flag has_error) df
      in map clean_nan_inf (to_dict df))"

text \<open>
  Running a function over the rows stops at the first row on which it raises.
\<close>

fun collect :: "('e + 'a) list \<Rightarrow> 'e + 'a list" where
  "collect [] = Inr []"
| "collect (x # xs) =
     (case x of
        Inl e \<Rightarrow> Inl e
      | Inr a \<Rightarrow> (case collect xs of Inl e \<Rightarrow> Inl e | Inr as \<Rightarrow> Inr (a # as)))"

text \<open>
  Lines 129 to 148, 158 to 164 and 167, on the care frame. On a frame with no rows
  \<open>DataFrame.apply(..., axis=1, result_type='expand')\<close> returns a copy of the frame, whose
  column labels are the sheet's headers, so that \<open>care_errors_and_notes[0]\<close> on line 159
  raises \<open>KeyError\<close>.
\<close>

definition care_records :: "pylib \<Rightarrow> row list \<Rightarrow> py_error + out_row list" where
  "care_records lib care_df =
     (let keys = map (care_key lib) care_df;
          dup = (if care_df \<noteq> [] then duplicated keys else [])
      in if care_df = [] then Inl KeyError
         else case collect (map (check_care_row lib) care_df) of
           Inl e \<Rightarrow> Inl e
         | Inr care_errors_and_notes \<Rightarrow>
            (let details = map fst care_errors_and_notes;
                 notes = map snd care_errors_and_notes;
                 has_error = map (\<lambda>e. e \<noteq> None \<and> e \<noteq> Some []) details;
                 has_error = map2 (\<lambda>d h. if d then True else h) dup has_error;
                 details = map2 (\<lambda>d e. if d
                     then Some (astype_str e @ ''; Duplicate Flock/Date/Vaccination/Medication'')
                     else e) dup details;
                 df = set_column ''care_key'' (map Tuple keys) (to_frame care_df);
                 df = set_column ''Duplicate Error'' (map Flag dup) df;
                 df = set_column ''Error Details'' (map details_val details) df;
                 df = set_column ''note'' (map Str notes) df;
                 df = set_column ''has_error'' (map Flag has_error) df
             in Inr (map clean_nan_inf (to_dict df))))"

record response =
  operational_data :: "out_row list"
  care_data :: "out_row list"

text \<open>
  The engine, from the parsed frame on (lines 109 to 172). The operational frame raises
  nothing; the only lines that can raise are those of the care frame. A frame with no
  rows has an empty care frame, and line 159 raises \<open>KeyError\<close> on it as on any other.
\<close>

definition analyze :: "pylib \<Rightarrow> row list \<Rightarrow> py_error + response" where
  "analyze lib t =
     (let df = normalize lib t;
          operational_df = filter (is_operational_row lib) df;
          care_df = filter (\<lambda>r. \<not> is_operational_row lib r) df
      in case care_records lib care_df of
           Inl e \<Rightarrow> Inl e
         | Inr care \<Rightarrow>
             Inr \<lparr>operational_data = operational_records lib operational_df,
                  care_data = care\<rparr>)"

section \<open>The notions of the specification\<close>

text \<open>
  The definitions of this section follow the words of the specification; the theorems
  below compare them with the functions above, which follow the code.
\<close>

text \<open>\<open>RequiredOperational\<close> excluding \<open>OptionalOperational\<close> and \<open>{Flock, Date}\<close>.\<close>

definition qualifying_cols :: "string list" where
  "qualifying_cols =
     filter (\<lambda>col. col \<notin> set (OPTIONAL_OPERATIONAL_COLS @ [''Flock'', ''Date'']))
       REQUIRED_OPERATIONAL_COLS"

text \<open>The columns that line 115 coerces to numbers.\<close>

definition numeric_cols :: "string list" where
  "numeric_cols =
     filter (\<lambda>col. col \<notin> set OPTIONAL_OPERATIONAL_COLS \<and>
            col \<notin> set [''Flock'', ''Date'', ''Animal Feed Formula Name'', ''Supplied Feed'',
                        ''Female Feed Formula ID'', ''Female Feed Type ID''])
       REQUIRED_OPERATIONAL_COLS"

text \<open>
  A present, truthy value: a number other than zero, or a text whose trimmed form is none
  of \<open>""\<close>, \<open>"0"\<close>, \<open>"nan"\<close>, \<open>"NaN"\<close>.
\<close>

definition truthy :: "cell option \<Rightarrow> bool" where
  "truthy v =
     (case v of
        Some (Num x) \<Rightarrow> x \<noteq> 0
      | Some (Text s) \<Rightarrow> strip s \<notin> {[], ''0'', ''nan'', ''NaN''}
      | _ \<Rightarrow> False)"

text \<open>A value that is missing or, after string conversion, trim-empty.\<close>

definition blank :: "pylib \<Rightarrow> cell option \<Rightarrow> bool" where
  "blank lib v = (pd_isna v \<or> strip (py_str lib v) = [])"

text \<open>A value that is numeric and negative.\<close>

definition negative :: "cell option \<Rightarrow> bool" where
  "negative v = (case v of Some (Num x) \<Rightarrow> x < 0 | _ \<Rightarrow> False)"

definition missing_message :: "pylib \<Rightarrow> row \<Rightarrow> string \<Rightarrow> string list" where
  "missing_message lib r col = (if blank lib (r col) then [''Missing '' @ col] else [])"

definition operational_message :: "pylib \<Rightarrow> row \<Rightarrow> string \<Rightarrow> string list" where
  "operational_message lib r col =
     (if blank lib (r col) then [''Missing '' @ col]
      else if negative (r col) then [''Negative value in '' @ col]
      else [])"

text \<open>
  The messages of the operational rule: one per qualifying column in catalog order, then
  those of \<open>Flock\<close> and \<open>Date\<close>.
\<close>

definition operational_messages :: "pylib \<Rightarrow> row \<Rightarrow> string list" where
  "operational_messages lib r =
     concat (map (operational_message lib r) qualifying_cols) @
     concat (map (missing_message lib r) [''Flock'', ''Date''])"

text \<open>Joining with \<open>"; "\<close>, where an empty join means no error.\<close>

definition join_errors :: "string list \<Rightarrow> string option" where
  "join_errors msgs = (if msgs = [] then None else Some (join ''; '' msgs))"

text \<open>The two frames of lines 119 and 120, as functions of the parsed frame.\<close>

definition operational_df :: "pylib \<Rightarrow> row list \<Rightarrow> row list" where
  "operational_df lib t = filter (is_operational_row lib) (normalize lib t)"

definition care_df :: "pylib \<Rightarrow> row list \<Rightarrow> row list" where
  "care_df lib t = filter (\<lambda>r. \<not> is_operational_row lib r) (normalize lib t)"

text \<open>
  What a cell of the frame becomes in an output record: a missing value of either kind
  is \<open>None\<close> there (\<open>pd.NA\<close> by \<open>to_dict\<close>, NaN by line 41), a number or a text is itself.
\<close>

definition passed_through :: "cell option \<Rightarrow> outval option" where
  "passed_through v =
     (case v of
        None \<Rightarrow> None
      | Some NaN \<Rightarrow> Some Null
      | Some NA \<Rightarrow> Some Null
      | Some x \<Rightarrow> Some (Cell x))"

definition or_NA :: "cell option \<Rightarrow> cell" where
  "or_NA v = (case v of None \<Rightarrow> NA | Some x \<Rightarrow> x)"

text \<open>
  The output record of one operational row, given its duplicate flag \<open>d\<close> and the
  validator's result \<open>e\<close>, and of one care row, given also its key \<open>k\<close> and note \<open>n\<close>.
\<close>

definition operational_record :: "row \<Rightarrow> bool \<Rightarrow> string option \<Rightarrow> out_row" where
  "operational_record r d e =
     clean_nan_inf (box_na ((map_option Cell \<circ> r)
       (''Duplicate Error'' \<mapsto> Flag d,
        ''Error Details'' \<mapsto>
           details_val (if d then Some (astype_str e @ ''; Duplicate Flock/Date'') else e),
        ''has_error'' \<mapsto> Flag (if d then True else e \<noteq> None \<and> e \<noteq> Some []))))"

definition care_record :: "row \<Rightarrow> string list \<Rightarrow> bool \<Rightarrow> string option \<Rightarrow> string \<Rightarrow> out_row" where
  "care_record r k d e n =
     clean_nan_inf (box_na ((map_option Cell \<circ> r)
       (''care_key'' \<mapsto> Tuple k,
        ''Duplicate Error'' \<mapsto> Flag d,
        ''Error Details'' \<mapsto>
           details_val (if d
             then Some (astype_str e @ ''; Duplicate Flock/Date/Vaccination/Medication'')
             else e),
        ''note'' \<mapsto> Str n,
        ''has_error'' \<mapsto> Flag (if d then True else e \<noteq> None \<and> e \<noteq> Some []))))"

text \<open>
  An output record carries a row of the frame when it agrees with the row on every column
  other than the five that the engine writes.
\<close>

definition carries :: "out_row \<Rightarrow> row \<Rightarrow> bool" where
  "carries rec r =
     (\<forall>col. col \<notin> set [''care_key'', ''Duplicate Error'', ''Error Details'', ''note'', ''has_error'']
        \<longrightarrow> rec col = passed_through (r col))"

text \<open>A value of the \<open>Error Details\<close> column that is neither \<open>None\<close> nor the empty string.\<close>

definition nonempty_details :: "outval \<Rightarrow> bool" where
  "nonempty_details e = (e \<noteq> Null \<and> e \<noteq> Str [])"

text \<open>Two raw key values that pandas groups together: equal, or both missing.\<close>

definition same_key_value :: "cell option \<Rightarrow> cell option \<Rightarrow> bool" where
  "same_key_value a b = (if pd_isna a then pd_isna b else a = b)"

section \<open>Example sheets\<close>

text \<open>
  An instance of the library parameters for the examples: it renders a whole number as
  Python renders an int and reads no number from a text. The examples hold whole numbers
  only, and no text in a numeric column.
\<close>

fun nat_str :: "nat \<Rightarrow> string" where
  "nat_str n =
     (if n < 10 then [''0123456789'' ! n]
      else nat_str (n div 10) @ [''0123456789'' ! (n mod 10)])"

declare nat_str.simps [simp del]

definition int_str :: "int \<Rightarrow> string" where
  "int_str i = (if i < 0 then CHR ''-'' # nat_str (nat (- i)) else nat_str (nat i))"

definition example_lib :: pylib where
  "example_lib = \<lparr>num_str = (\<lambda>x. int_str \<lfloor>x\<rfloor>), to_numeric = (\<lambda>s. None)\<rparr>"

text \<open>An operational row with every required field valid.\<close>

definition valid_operational_row :: row where
  "valid_operational_row =
     [''Flock'' \<mapsto> Text ''A1'', ''Date'' \<mapsto> Text ''2024-01-01'',
      ''Animal Mortality'' \<mapsto> Num 3, ''Animals Culled'' \<mapsto> Num 3, ''Table Eggs Prod'' \<mapsto> Num 3,
      ''Animal Feed Formula Name'' \<mapsto> Text ''F1'', ''Supplied Feed'' \<mapsto> Text ''S1'',
      ''Feed Received (Kg)'' \<mapsto> Num 3, ''Animal Feed Consumed'' \<mapsto> Num 3,
      ''Water Consumption'' \<mapsto> Num 3, ''Female Feed Formula ID'' \<mapsto> Text ''F2'',
      ''Temperature Low'' \<mapsto> Num 3, ''Ammonia Level'' \<mapsto> Num 3,
      ''Animal Feed Inventory'' \<mapsto> Num 3, ''Female Feed Type ID'' \<mapsto> Text ''T1'',
      ''Light_Duration (HU)'' \<mapsto> Num 3, ''Light intensity %'' \<mapsto> Num 3]"

text \<open>The same row with \<open>Animal Feed Consumed = -5\<close>.\<close>

definition negative_feed_row :: row where
  "negative_feed_row = valid_operational_row(''Animal Feed Consumed'' \<mapsto> Num (- 5))"

text \<open>A care row that names a vaccine and a medication and nothing else.\<close>

definition care_row :: row where
  "care_row =
     [''Flock'' \<mapsto> Text ''A1'', ''Date'' \<mapsto> Text ''2024-01-02'',
      ''Vaccination'' \<mapsto> Text ''NDV'', ''Medication'' \<mapsto> Text ''Amoxicillin'']"

text \<open>
  A care row whose \<open>Vaccination\<close> and \<open>Medication\<close> cells are empty in the sheet (NaN in
  the frame) and whose other care fields are filled in.
\<close>

definition care_row_empty_cells :: row where
  "care_row_empty_cells =
     [''Flock'' \<mapsto> Text ''A1'', ''Date'' \<mapsto> Text ''2024-01-01'',
      ''Vaccination'' \<mapsto> NaN, ''Medication'' \<mapsto> NaN,
      ''Creation User ID'' \<mapsto> Text ''u1'', ''Vacc Method'' \<mapsto> Text ''spray'',
      ''Vacc Type'' \<mapsto> Text ''live'', ''VaccinevDoze'' \<mapsto> Text ''1 ml'',
      ''Medication Batch'' \<mapsto> Text ''B7'', ''Concentration %'' \<mapsto> Text ''5'',
      ''Record Source Type'' \<mapsto> Text ''manual'', ''Medication Dose'' \<mapsto> Text ''2 ml'',
      ''Medication Exp Date'' \<mapsto> Text ''2025-01-01'', ''Doctor Name'' \<mapsto> Text ''Dr Sami'',
      ''Doses Unit'' \<mapsto> Text ''ml'', ''Produced PS_Nest_HE'' \<mapsto> Text ''12'',
      ''Vaccine Name'' \<mapsto> Text ''NDV'']"

text \<open>A care row whose \<open>Flock\<close> and \<open>Date\<close> cells are empty in the sheet.\<close>

definition care_row_no_flock :: row where
  "care_row_no_flock =
     [''Flock'' \<mapsto> NaN, ''Date'' \<mapsto> NaN,
      ''Vaccination'' \<mapsto> Text '' ndv '', ''Vacc Method'' \<mapsto> NaN,
      ''Vacc Type'' \<mapsto> NaN, ''VaccinevDoze'' \<mapsto> NaN,
      ''Medication'' \<mapsto> NaN, ''Medication Dose'' \<mapsto> NaN,
      ''Medication Batch'' \<mapsto> NaN, ''Medication Exp Date'' \<mapsto> NaN]"

text \<open>A sheet with the columns \<open>Flock\<close>, \<open>Date\<close> and \<open>Medication\<close> only, and one row.\<close>

definition row_without_vaccination :: row where
  "row_without_vaccination =
     [''Flock'' \<mapsto> Text ''A1'', ''Date'' \<mapsto> Text ''2024-01-01'',
      ''Medication'' \<mapsto> Text ''Amoxicillin'']"

definition sheet_without_vaccination :: "row list" where
  "sheet_without_vaccination = [row_without_vaccination]"

text \<open>Two valid operational rows with the same flock and date, and a care row.\<close>

definition duplicate_sheet :: "row list" where
  "duplicate_sheet = [valid_operational_row, valid_operational_row, care_row]"

text \<open>A sheet with one valid operational row and no care row.\<close>

definition operational_only_sheet :: "row list" where
  "operational_only_sheet = [valid_operational_row]"

definition negative_feed_sheet :: "row list" where
  "negative_feed_sheet = [negative_feed_row, care_row]"

section \<open>Closed forms of the loops and frames\<close>

lemma qualifying_cols_eq:
  "qualifying_cols =
     [''Animal Mortality'', ''Animals Culled'', ''Table Eggs Prod'',
      ''Animal Feed Formula Name'', ''Supplied Feed'', ''Feed Received (Kg)'',
      ''Animal Feed Consumed'', ''Water Consumption'',
      ''Female Feed Formula ID'', ''Temperature Low'', ''Ammonia Level'',
      ''Animal Feed Inventory'', ''Female Feed Type ID'',
      ''Light_Duration (HU)'', ''Light intensity %'']"
  by (simp add: qualifying_cols_def REQUIRED_OPERATIONAL_COLS_def OPTIONAL_OPERATIONAL_COLS_def)

lemma numeric_cols_eq:
  "numeric_cols =
     [''Animal Mortality'', ''Animals Culled'', ''Table Eggs Prod'', ''Feed Received (Kg)'',
      ''Animal Feed Consumed'', ''Water Consumption'', ''Temperature Low'', ''Ammonia Level'',
      ''Animal Feed Inventory'', ''Light_Duration (HU)'', ''Light intensity %'']"
  by (simp add: numeric_cols_def REQUIRED_OPERATIONAL_COLS_def OPTIONAL_OPERATIONAL_COLS_def)

lemma fold_add_missing:
  "fold (\<lambda>col r. if r col = None then r(col \<mapsto> NA) else r) cols r c =
     (if c \<in> set cols \<and> r c = None then Some NA else r c)"
  by (induction cols arbitrary: r) auto

lemma add_missing_columns_apply:
  "add_missing_columns r c =
     (if c \<in> set (REQUIRED_OPERATIONAL_COLS @ REQUIRED_CARE_COLS) \<and> r c = None
      then Some NA else r c)"
  unfolding add_missing_columns_def by (rule fold_add_missing)

lemma pd_to_numeric_idem: "pd_to_numeric lib (pd_to_numeric lib v) = pd_to_numeric lib v"
  by (cases v) (auto split: option.splits)

lemma fold_coerce:
  "fold (\<lambda>col r. if P col then r(col := map_option (pd_to_numeric lib) (r col)) else r) cols r c =
     (if c \<in> set cols \<and> P c then map_option (pd_to_numeric lib) (r c) else r c)"
proof (induction cols arbitrary: r)
  case Nil
  then show ?case by simp
next
  case (Cons a cols)
  show ?case
    by (cases "r c") (auto simp: Cons.IH pd_to_numeric_idem)
qed

lemma coerce_numeric_apply:
  "coerce_numeric lib r c =
     (if c \<in> set numeric_cols then map_option (pd_to_numeric lib) (r c) else r c)"
  unfolding coerce_numeric_def numeric_cols_def by (simp only: fold_coerce) auto

lemma numeric_cols_subset: "set numeric_cols \<subseteq> set REQUIRED_OPERATIONAL_COLS"
  by (auto simp: numeric_cols_def)

lemma normalize_row_apply:
  "normalize_row lib r c =
     (if c \<in> set numeric_cols then Some (pd_to_numeric lib (or_NA (r c)))
      else if c \<in> set (REQUIRED_OPERATIONAL_COLS @ REQUIRED_CARE_COLS) then Some (or_NA (r c))
      else r c)"
  using numeric_cols_subset
  by (auto simp: normalize_row_def coerce_numeric_apply add_missing_columns_apply or_NA_def
      split: option.splits)

lemma bex_cons_skip:
  "col \<in> S \<Longrightarrow> (\<exists>c\<in>set (col # cols). c \<notin> S \<and> T c) = (\<exists>c\<in>set cols. c \<notin> S \<and> T c)"
  by auto

lemma bex_cons_keep:
  "col \<notin> S \<Longrightarrow> (\<exists>c\<in>set (col # cols). c \<notin> S \<and> T c) = (T col \<or> (\<exists>c\<in>set cols. c \<notin> S \<and> T c))"
  by auto

lemma truthy_iff:
  "(pd_notna v \<and> (if is_number v then float_ne_zero v
       else strip (py_str lib v) \<notin> set [[], ''0'', ''nan'', ''NaN''])) = truthy v"
proof (cases v)
  case None
  then show ?thesis by (simp add: pd_notna_def truthy_def)
next
  case (Some x)
  then show ?thesis by (cases x) (simp_all add: pd_notna_def truthy_def)
qed

lemma is_operational_loop_iff:
  "is_operational_loop lib r cols \<longleftrightarrow>
     (\<exists>c \<in> set cols. c \<notin> set (OPTIONAL_OPERATIONAL_COLS @ [''Flock'', ''Date'']) \<and> truthy (r c))"
proof (induction cols)
  case Nil
  then show ?case by simp
next
  case (Cons col cols)
  let ?S = "set (OPTIONAL_OPERATIONAL_COLS @ [''Flock'', ''Date''])"
  show ?case
  proof (cases "col \<in> ?S")
    case True
    have "is_operational_loop lib r (col # cols) = is_operational_loop lib r cols"
      using True by (simp only: is_operational_loop.simps if_True)
    then show ?thesis
      by (simp only: Cons.IH bex_cons_skip [OF True])
  next
    case False
    have "is_operational_loop lib r (col # cols) =
            (truthy (r col) \<or> is_operational_loop lib r cols)"
      using False
      by (simp only: is_operational_loop.simps if_False Let_def truthy_iff [of "r col" lib, symmetric])
         (simp only: split: if_splits, blast)
    then show ?thesis
      by (simp only: Cons.IH bex_cons_keep [OF False])
  qed
qed

lemma is_operational_row_iff:
  "is_operational_row lib r \<longleftrightarrow> (\<exists>c \<in> set qualifying_cols. truthy (r c))"
  unfolding is_operational_row_def is_operational_loop_iff qualifying_cols_def
  by (simp only: set_filter) blast

lemma negative_iff: "(is_number v \<and> less_zero v) = negative v"
proof (cases v)
  case None
  then show ?thesis by (simp add: negative_def)
next
  case (Some x)
  then show ?thesis by (cases x) (simp_all add: negative_def)
qed

lemma operational_errors_eq:
  "operational_errors lib r cols errors =
     errors @ concat (map (operational_message lib r)
       (filter (\<lambda>col. col \<notin> set (OPTIONAL_OPERATIONAL_COLS @ [''Flock'', ''Date''])) cols))"
proof (induction cols arbitrary: errors)
  case Nil
  then show ?case by simp
next
  case (Cons col cols)
  let ?S = "set (OPTIONAL_OPERATIONAL_COLS @ [''Flock'', ''Date''])"
  show ?case
  proof (cases "col \<in> ?S")
    case True
    then show ?thesis
      by (simp only: operational_errors.simps if_True Cons.IH filter.simps if_False not_True_eq_False)
  next
    case False
    then show ?thesis
      by (simp only: operational_errors.simps if_False Let_def Cons.IH filter.simps
          not_False_eq_True if_True list.map concat.simps operational_message_def
          blank_def [symmetric] negative_iff append_assoc split: if_splits)
         simp
  qed
qed

lemma key_errors_eq:
  "key_errors lib r cols errors = errors @ concat (map (missing_message lib r) cols)"
  by (induction cols arbitrary: errors)
     (simp_all add: Let_def missing_message_def blank_def)

lemma care_errors_eq:
  "care_errors lib r cols errors =
     errors @ concat (map (missing_message lib r)
       (filter (\<lambda>col. col \<notin> set [''Vaccination'', ''Medication'']) cols))"
proof (induction cols arbitrary: errors)
  case Nil
  then show ?case by simp
next
  case (Cons col cols)
  show ?case
  proof (cases "col \<in> set [''Vaccination'', ''Medication'']")
    case True
    then show ?thesis
      by (simp only: care_errors.simps if_True Cons.IH filter.simps if_False not_True_eq_False)
  next
    case False
    then show ?thesis
      by (simp only: care_errors.simps if_False Let_def Cons.IH filter.simps
          not_False_eq_True if_True list.map concat.simps missing_message_def
          blank_def [symmetric] append_assoc split: if_splits)
         simp
  qed
qed

lemma check_operational_row_eq:
  "check_operational_row lib r = join_errors (operational_messages lib r)"
  by (simp only: check_operational_row_def Let_def operational_errors_eq key_errors_eq
      operational_messages_def join_errors_def qualifying_cols_def append_Nil if_not_P
      split: if_splits) simp

lemma py_or_Inl_iff: "py_or a b = Inl e \<longleftrightarrow> a = Some NA \<and> e = TypeError"
proof (cases a)
  case None
  then show ?thesis by (simp add: py_or_def)
next
  case (Some x)
  show ?thesis
  proof (cases x)
    case NaN
    with Some show ?thesis by (simp add: py_or_def)
  next
    case NA
    with Some show ?thesis by (simp add: py_or_def) blast
  next
    case (Num y)
    with Some show ?thesis by (simp add: py_or_def)
  next
    case (Text t)
    with Some show ?thesis by (simp add: py_or_def)
  qed
qed

lemma check_care_row_Inl_iff:
  "check_care_row lib r = Inl e \<longleftrightarrow>
     e = TypeError \<and> (r ''Vaccination'' = Some NA \<or> r ''Medication'' = Some NA)"
proof (cases "py_or (r ''Vaccination'') (Some (Text []))")
  case (Inl e1)
  then have "check_care_row lib r = Inl e1"
    by (simp only: check_care_row_def sum.case)
  moreover from Inl have "r ''Vaccination'' = Some NA \<and> e1 = TypeError"
    by (simp only: py_or_Inl_iff)
  ultimately show ?thesis by auto
next
  case v: (Inr v)
  have nv: "r ''Vaccination'' \<noteq> Some NA"
    using v py_or_Inl_iff [of "r ''Vaccination''" "Some (Text [])" TypeError] by auto
  show ?thesis
  proof (cases "py_or (r ''Medication'') (Some (Text []))")
    case (Inl e2)
    then have "check_care_row lib r = Inl e2"
      by (simp only: check_care_row_def v sum.case)
    moreover from Inl have "r ''Medication'' = Some NA \<and> e2 = TypeError"
      by (simp only: py_or_Inl_iff)
    ultimately show ?thesis by auto
  next
    case m: (Inr m)
    have nm: "r ''Medication'' \<noteq> Some NA"
      using m py_or_Inl_iff [of "r ''Medication''" "Some (Text [])" TypeError] by auto
    have "\<exists>x. check_care_row lib r = Inr x"
      by (simp only: check_care_row_def v m sum.case Let_def) blast
    with nv nm show ?thesis by auto
  qed
qed

lemma collect_Inr_iff: "collect xs = Inr ys \<longleftrightarrow> xs = map Inr ys"
proof (induction xs arbitrary: ys)
  case Nil
  then show ?case by auto
next
  case (Cons x xs)
  show ?case
  proof (cases x)
    case (Inl e)
    then show ?thesis by (cases ys) auto
  next
    case (Inr a)
    show ?thesis
    proof (cases "collect xs")
      case (Inl e)
      have "xs \<noteq> map Inr zs" for zs
        using Cons.IH [of zs] Inl by auto
      with Inl \<open>x = Inr a\<close> show ?thesis by (cases ys) auto
    next
      case (Inr as)
      then have "xs = map Inr as" using Cons.IH [of as] by simp
      with Inr \<open>x = Inr a\<close> show ?thesis
        by (cases ys) (auto simp: map_eq_conv inj_on_def dest: map_inj_on)
    qed
  qed
qed

lemma collect_Inl: "collect xs = Inl e \<Longrightarrow> Inl e \<in> set xs"
  by (induction xs) (auto split: sum.splits)

lemma length_set_column [simp]:
  "length (set_column name vals df) = min (length df) (length vals)"
  by (simp add: set_column_def)

lemma nth_set_column:
  "i < length df \<Longrightarrow> i < length vals \<Longrightarrow> set_column name vals df ! i = (df ! i)(name \<mapsto> vals ! i)"
  by (simp add: set_column_def)

lemma length_duplicated [simp]: "length (duplicated ks) = length ks"
  by (simp add: duplicated_def)

lemma nth_duplicated: "i < length ks \<Longrightarrow> duplicated ks ! i = (2 \<le> count_list ks (ks ! i))"
  by (simp add: duplicated_def)

lemma length_operational_records [simp]:
  "length (operational_records lib df) = length df"
  by (simp add: operational_records_def Let_def to_frame_def to_dict_def)

lemma operational_records_nth:
  assumes "i < length df"
  shows "operational_records lib df ! i =
           operational_record (df ! i) (duplicated (map operational_key df) ! i)
             (check_operational_row lib (df ! i))"
proof -
  from assms have ne: "df \<noteq> []" by auto
  show ?thesis
    using assms ne
    by (simp add: operational_records_def Let_def nth_set_column to_frame_def to_dict_def
        operational_record_def)
qed

lemma clean_nan_inf_upd:
  "clean_nan_inf (m(k \<mapsto> v)) = (clean_nan_inf m)(k := (if v = Cell NaN then Some Null else Some v))"
  by (rule ext) (auto simp: clean_nan_inf_def split: option.splits outval.splits cell.splits)

lemma box_na_upd:
  "box_na (m(k \<mapsto> v)) = (box_na m)(k := (if v = Cell NA then Some Null else Some v))"
  by (rule ext) (auto simp: box_na_def split: option.splits outval.splits cell.splits)

lemma clean_nan_inf_cells:
  "clean_nan_inf (box_na (map_option Cell \<circ> r)) c = passed_through (r c)"
  by (simp add: clean_nan_inf_def box_na_def passed_through_def split: option.splits cell.splits)

lemma details_val_ne: "details_val e \<noteq> Cell NaN" "details_val e \<noteq> Cell NA"
  by (simp_all add: details_val_def split: option.splits)

lemma operational_record_fields:
  "operational_record r d e ''Duplicate Error'' = Some (Flag d)"
  "operational_record r d e ''Error Details'' =
     Some (details_val (if d then Some (astype_str e @ ''; Duplicate Flock/Date'') else e))"
  "operational_record r d e ''has_error'' = Some (Flag (if d then True else e \<noteq> None \<and> e \<noteq> Some []))"
  "c \<notin> set [''Duplicate Error'', ''Error Details'', ''has_error''] \<Longrightarrow>
     operational_record r d e c = passed_through (r c)"
  by (simp_all add: operational_record_def box_na_upd clean_nan_inf_upd details_val_ne
      clean_nan_inf_cells)

lemma care_record_fields:
  "care_record r k d e n ''care_key'' = Some (Tuple k)"
  "care_record r k d e n ''Duplicate Error'' = Some (Flag d)"
  "care_record r k d e n ''Error Details'' =
     Some (details_val (if d
        then Some (astype_str e @ ''; Duplicate Flock/Date/Vaccination/Medication'') else e))"
  "care_record r k d e n ''note'' = Some (Str n)"
  "care_record r k d e n ''has_error'' = Some (Flag (if d then True else e \<noteq> None \<and> e \<noteq> Some []))"
  "c \<notin> set [''care_key'', ''Duplicate Error'', ''Error Details'', ''note'', ''has_error''] \<Longrightarrow>
     care_record r k d e n c = passed_through (r c)"
  by (simp_all add: care_record_def box_na_upd clean_nan_inf_upd details_val_ne
      clean_nan_inf_cells)

lemma care_records_Inr:
  assumes "care_records lib df = Inr rs"
  shows "df \<noteq> []" and "length rs = length df"
    and "i < length df \<Longrightarrow>
          \<exists>e n. check_care_row lib (df ! i) = Inr (e, n) \<and>
            rs ! i = care_record (df ! i) (care_key lib (df ! i))
                       (duplicated (map (care_key lib) df) ! i) e n"
proof -
  show ne: "df \<noteq> []"
    using assms by (auto simp: care_records_def Let_def)
  from assms ne obtain en where en: "collect (map (check_care_row lib) df) = Inr en"
    by (cases "collect (map (check_care_row lib) df)") (auto simp: care_records_def Let_def)
  then have m: "map (check_care_row lib) df = map Inr en"
    by (simp only: collect_Inr_iff)
  then have len: "length en = length df"
    by (metis length_map)
  have rs: "rs = map clean_nan_inf (to_dict
      (set_column ''has_error''
         (map Flag (map2 (\<lambda>d h. if d then True else h) (duplicated (map (care_key lib) df))
                     (map (\<lambda>e. e \<noteq> None \<and> e \<noteq> Some []) (map fst en))))
      (set_column ''note'' (map Str (map snd en))
      (set_column ''Error Details''
         (map details_val (map2 (\<lambda>d e. if d
             then Some (astype_str e @ ''; Duplicate Flock/Date/Vaccination/Medication'')
             else e) (duplicated (map (care_key lib) df)) (map fst en)))
      (set_column ''Duplicate Error'' (map Flag (duplicated (map (care_key lib) df)))
      (set_column ''care_key'' (map Tuple (map (care_key lib) df)) (to_frame df)))))))"
    using assms ne en by (simp add: care_records_def Let_def)
  show "length rs = length df"
    by (simp add: rs len to_frame_def to_dict_def)
  show "\<exists>e n. check_care_row lib (df ! i) = Inr (e, n) \<and>
            rs ! i = care_record (df ! i) (care_key lib (df ! i))
                       (duplicated (map (care_key lib) df) ! i) e n" if i: "i < length df"
  proof -
    from m i len have c: "check_care_row lib (df ! i) = Inr (fst (en ! i), snd (en ! i))"
      by (metis nth_map prod.collapse)
    have "rs ! i = care_record (df ! i) (care_key lib (df ! i))
                       (duplicated (map (care_key lib) df) ! i) (fst (en ! i)) (snd (en ! i))"
      using i len by (simp add: rs nth_set_column to_frame_def to_dict_def care_record_def)
    with c show ?thesis by blast
  qed
qed

lemma care_records_returns:
  assumes "df \<noteq> []"
    and "\<forall>r\<in>set df. r ''Vaccination'' \<noteq> Some NA \<and> r ''Medication'' \<noteq> Some NA"
  shows "\<exists>rs. care_records lib df = Inr rs"
proof -
  define xs where "xs = map (check_care_row lib) df"
  have "check_care_row lib r \<noteq> Inl e" if "r \<in> set df" for r e
    using that assms(2) by (simp only: check_care_row_Inl_iff) blast
  then have "Inl e \<notin> set xs" for e
    unfolding xs_def by (metis (no_types, lifting) imageE list.set_map)
  then have "collect xs \<noteq> Inl e" for e
    using collect_Inl [of xs e] by blast
  then obtain en where "collect xs = Inr en"
    by (cases "collect xs") auto
  then show ?thesis
    using assms(1) by (simp add: care_records_def Let_def xs_def)
qed

lemma care_records_raises:
  assumes "r \<in> set df" and "r ''Vaccination'' = Some NA \<or> r ''Medication'' = Some NA"
  shows "care_records lib df = Inl TypeError"
proof -
  define xs where "xs = map (check_care_row lib) df"
  from assms(1) have ne: "df \<noteq> []" by auto
  have "check_care_row lib r = Inl TypeError"
    using assms(2) by (simp only: check_care_row_Inl_iff)
  then have "Inl TypeError \<in> set xs"
    unfolding xs_def using assms(1) by force
  then have "xs \<noteq> map Inr en" for en
    by auto
  then have "collect xs \<noteq> Inr en" for en
    by (simp only: collect_Inr_iff) simp
  then obtain e where e: "collect xs = Inl e"
    by (cases "collect xs") auto
  then have "Inl e \<in> set xs"
    by (rule collect_Inl)
  then obtain r' where "check_care_row lib r' = Inl e"
    unfolding xs_def by (metis (no_types, lifting) imageE list.set_map)
  then have "e = TypeError"
    by (simp only: check_care_row_Inl_iff)
  with e ne show ?thesis
    by (simp add: care_records_def Let_def xs_def)
qed

lemma analyze_Inr:
  assumes "analyze lib t = Inr out"
  shows "t \<noteq> []"
    and "operational_data out = operational_records lib (operational_df lib t)"
    and "care_records lib (care_df lib t) = Inr (care_data out)"
proof -
  from assms show "operational_data out = operational_records lib (operational_df lib t)"
    by (auto simp: analyze_def Let_def operational_df_def care_df_def split: sum.splits)
  from assms show c: "care_records lib (care_df lib t) = Inr (care_data out)"
    by (auto simp: analyze_def Let_def operational_df_def care_df_def split: sum.splits)
  from c have "care_df lib t \<noteq> []" by (rule care_records_Inr(1))
  then show "t \<noteq> []" by (auto simp: care_df_def normalize_def)
qed

lemma analyze_returns:
  assumes "care_records lib (care_df lib t) = Inr rs"
  shows "analyze lib t =
           Inr \<lparr>operational_data = operational_records lib (operational_df lib t), care_data = rs\<rparr>"
  using assms by (simp add: analyze_def Let_def operational_df_def care_df_def)

lemma count_list_length_filter: "count_list xs x = length (filter (\<lambda>y. y = x) xs)"
  by (induction xs) simp_all

lemma count_list_ge2_iff:
  assumes "i < length ks"
  shows "2 \<le> count_list ks (ks ! i) \<longleftrightarrow> (\<exists>j<length ks. j \<noteq> i \<and> ks ! j = ks ! i)"
proof -
  define S where "S = {j. j < length ks \<and> ks ! j = ks ! i}"
  have fin: "finite S" by (simp add: S_def)
  have i: "i \<in> S" using assms by (simp add: S_def)
  have card: "count_list ks (ks ! i) = card S"
    by (simp add: count_list_length_filter length_filter_conv_card S_def)
  show ?thesis
  proof
    assume "2 \<le> count_list ks (ks ! i)"
    then have "S \<noteq> {i}" using card by auto
    with i obtain j where "j \<in> S" "j \<noteq> i" by blast
    then show "\<exists>j<length ks. j \<noteq> i \<and> ks ! j = ks ! i" by (auto simp: S_def)
  next
    assume "\<exists>j<length ks. j \<noteq> i \<and> ks ! j = ks ! i"
    then obtain j where "j \<in> S" "j \<noteq> i" by (auto simp: S_def)
    with i have "{i, j} \<subseteq> S" by simp
    then have "card {i, j} \<le> card S" using fin by (rule card_mono [rotated])
    with \<open>j \<noteq> i\<close> show "2 \<le> count_list ks (ks ! i)" using card by simp
  qed
qed

lemma operational_data_nth:
  assumes "analyze lib t = Inr out"
  shows "length (operational_data out) = length (operational_df lib t)"
    and "i < length (operational_df lib t) \<Longrightarrow>
          operational_data out ! i =
            operational_record (operational_df lib t ! i)
              (duplicated (map operational_key (operational_df lib t)) ! i)
              (check_operational_row lib (operational_df lib t ! i))"
  using analyze_Inr(2) [OF assms] by (simp_all add: operational_records_nth)

lemma care_data_nth:
  assumes "analyze lib t = Inr out"
  shows "care_df lib t \<noteq> []"
    and "length (care_data out) = length (care_df lib t)"
    and "i < length (care_df lib t) \<Longrightarrow>
          \<exists>e n. check_care_row lib (care_df lib t ! i) = Inr (e, n) \<and>
            care_data out ! i =
              care_record (care_df lib t ! i) (care_key lib (care_df lib t ! i))
                (duplicated (map (care_key lib) (care_df lib t)) ! i) e n"
  using care_records_Inr [OF analyze_Inr(3) [OF assms]] by blast+

lemma details_val_nonempty:
  "nonempty_details (details_val e) = (e \<noteq> None \<and> e \<noteq> Some [])"
  by (cases e) (simp_all add: nonempty_details_def details_val_def)

lemma operational_record_has_error:
  "\<exists>h dd ee. operational_record r d e ''has_error'' = Some (Flag h) \<and>
     operational_record r d e ''Duplicate Error'' = Some (Flag dd) \<and>
     operational_record r d e ''Error Details'' = Some ee \<and>
     (h \<longleftrightarrow> nonempty_details ee \<or> dd)"
proof -
  have "(if d then True else e \<noteq> None \<and> e \<noteq> Some []) \<longleftrightarrow>
          nonempty_details
            (details_val (if d then Some (astype_str e @ ''; Duplicate Flock/Date'') else e)) \<or> d"
    by (simp add: details_val_nonempty)
  with operational_record_fields(1-3) [of r d e] show ?thesis by blast
qed

lemma care_record_has_error:
  "\<exists>h dd ee. care_record r k d e n ''has_error'' = Some (Flag h) \<and>
     care_record r k d e n ''Duplicate Error'' = Some (Flag dd) \<and>
     care_record r k d e n ''Error Details'' = Some ee \<and>
     (h \<longleftrightarrow> nonempty_details ee \<or> dd)"
proof -
  have "(if d then True else e \<noteq> None \<and> e \<noteq> Some []) \<longleftrightarrow>
          nonempty_details
            (details_val (if d
               then Some (astype_str e @ ''; Duplicate Flock/Date/Vaccination/Medication'')
               else e)) \<or> d"
    by (simp add: details_val_nonempty)
  with care_record_fields(2,3,5) [of r k d e n] show ?thesis by blast
qed

lemma passed_through_not_Tuple: "passed_through v \<noteq> Some (Tuple k)"
  by (simp add: passed_through_def split: option.splits cell.splits)

lemma operational_record_carries: "carries (operational_record r d e) r"
  by (simp add: carries_def operational_record_fields(4))

lemma care_record_carries: "carries (care_record r k d e n) r"
  by (simp add: carries_def care_record_fields(6))

lemma normalize_row_other:
  "c \<notin> set (REQUIRED_OPERATIONAL_COLS @ REQUIRED_CARE_COLS) \<Longrightarrow> normalize_row lib r c = r c"
  using numeric_cols_subset by (auto simp: normalize_row_apply)

lemma normalize_row_Num: "r c = Some (Num x) \<Longrightarrow> normalize_row lib r c = Some (Num x)"
  by (simp add: normalize_row_apply or_NA_def)

lemma normalize_row_Text:
  "r c = Some (Text s) \<Longrightarrow> c \<notin> set numeric_cols \<Longrightarrow> normalize_row lib r c = Some (Text s)"
  by (simp add: normalize_row_apply or_NA_def)

lemma qualifying_cols_subset: "set qualifying_cols \<subseteq> set REQUIRED_OPERATIONAL_COLS"
  by (auto simp: qualifying_cols_def)

lemma not_truthy_missing: "\<not> truthy (Some NaN)" "\<not> truthy (Some NA)" "\<not> truthy None"
  by (simp_all add: truthy_def)

lemma not_operational_if_absent:
  assumes "\<forall>c\<in>set qualifying_cols. r c = None"
  shows "\<not> is_operational_row lib (normalize_row lib r)"
proof -
  have "\<not> truthy (normalize_row lib r c)" if "c \<in> set qualifying_cols" for c
  proof -
    from that assms have "r c = None" by blast
    moreover from that qualifying_cols_subset
    have "c \<in> set (REQUIRED_OPERATIONAL_COLS @ REQUIRED_CARE_COLS)" by auto
    ultimately show ?thesis
      by (simp add: normalize_row_apply or_NA_def not_truthy_missing)
  qed
  then show ?thesis
    by (simp only: is_operational_row_iff) blast
qed

lemma operational_if_number:
  assumes "c \<in> set qualifying_cols" and "r c = Some (Num x)" and "x \<noteq> 0"
  shows "is_operational_row lib (normalize_row lib r)"
proof -
  have "truthy (normalize_row lib r c)"
    using assms(2,3) by (simp add: normalize_row_Num truthy_def)
  with assms(1) show ?thesis
    by (simp only: is_operational_row_iff) blast
qed

lemma care_cols_not_numeric:
  "''Vaccination'' \<notin> set numeric_cols" "''Medication'' \<notin> set numeric_cols"
  "''Vaccination'' \<in> set (REQUIRED_OPERATIONAL_COLS @ REQUIRED_CARE_COLS)"
  "''Medication'' \<in> set (REQUIRED_OPERATIONAL_COLS @ REQUIRED_CARE_COLS)"
  by (simp_all add: numeric_cols_eq REQUIRED_CARE_COLS_def)

lemma normalize_row_care_cols:
  "normalize_row lib r ''Vaccination'' = Some (or_NA (r ''Vaccination''))"
  "normalize_row lib r ''Medication'' = Some (or_NA (r ''Medication''))"
  by (simp_all only: normalize_row_apply care_cols_not_numeric if_False if_True)

lemma care_row_absent: "\<forall>c\<in>set qualifying_cols. care_row c = None"
  by (simp add: qualifying_cols_eq care_row_def)

lemma care_row_is_care: "\<not> is_operational_row lib (normalize_row lib care_row)"
  using care_row_absent by (rule not_operational_if_absent)

lemma valid_operational_row_is_operational:
  "is_operational_row lib (normalize_row lib valid_operational_row)"
proof (rule operational_if_number)
  show "''Light intensity %'' \<in> set qualifying_cols"
    by (simp add: qualifying_cols_eq)
  show "valid_operational_row ''Light intensity %'' = Some (Num 3)"
    by (simp add: valid_operational_row_def)
  show "(3::real) \<noteq> 0" by simp
qed

lemma negative_feed_row_is_operational:
  "is_operational_row lib (normalize_row lib negative_feed_row)"
proof (rule operational_if_number)
  show "''Animal Feed Consumed'' \<in> set qualifying_cols"
    by (simp add: qualifying_cols_eq)
  show "negative_feed_row ''Animal Feed Consumed'' = Some (Num (- 5))"
    by (simp add: negative_feed_row_def)
  show "(- 5::real) \<noteq> 0" by simp
qed

lemma care_row_normalized:
  "normalize_row lib care_row ''Vaccination'' = Some (Text ''NDV'')"
  "normalize_row lib care_row ''Medication'' = Some (Text ''Amoxicillin'')"
  by (simp_all add: normalize_row_care_cols or_NA_def care_row_def)

lemma duplicate_sheet_frames:
  "operational_df lib duplicate_sheet =
     [normalize_row lib valid_operational_row, normalize_row lib valid_operational_row]"
  "care_df lib duplicate_sheet = [normalize_row lib care_row]"
  by (simp_all add: operational_df_def care_df_def normalize_def duplicate_sheet_def
      care_row_is_care valid_operational_row_is_operational)

lemma negative_feed_sheet_frames:
  "operational_df lib negative_feed_sheet = [normalize_row lib negative_feed_row]"
  "care_df lib negative_feed_sheet = [normalize_row lib care_row]"
  by (simp_all add: operational_df_def care_df_def normalize_def negative_feed_sheet_def
      care_row_is_care negative_feed_row_is_operational)

lemma care_row_returns: "\<exists>rs. care_records lib [normalize_row lib care_row] = Inr rs"
  by (rule care_records_returns) (simp_all add: care_row_normalized)

lemma duplicate_sheet_returns: "\<exists>out. analyze lib duplicate_sheet = Inr out"
  using care_row_returns [of lib] analyze_returns [of lib duplicate_sheet]
  by (auto simp only: duplicate_sheet_frames)

lemma negative_feed_sheet_returns: "\<exists>out. analyze lib negative_feed_sheet = Inr out"
  using care_row_returns [of lib] analyze_returns [of lib negative_feed_sheet]
  by (auto simp only: negative_feed_sheet_frames)

lemma analyze_raises:
  assumes "care_records lib (care_df lib t) = Inl e"
  shows "analyze lib t = Inl e"
  using assms by (simp add: analyze_def Let_def care_df_def)

lemma analyze_returns_iff:
  "(\<exists>out. analyze lib t = Inr out) \<longleftrightarrow>
     care_df lib t \<noteq> [] \<and>
     (\<forall>r\<in>set (care_df lib t). r ''Vaccination'' \<noteq> Some NA \<and> r ''Medication'' \<noteq> Some NA)"
proof
  assume "\<exists>out. analyze lib t = Inr out"
  then obtain out where out: "analyze lib t = Inr out" by blast
  note c = analyze_Inr(3) [OF out]
  have "r ''Vaccination'' \<noteq> Some NA \<and> r ''Medication'' \<noteq> Some NA"
    if "r \<in> set (care_df lib t)" for r
  proof (rule ccontr)
    assume "\<not> (r ''Vaccination'' \<noteq> Some NA \<and> r ''Medication'' \<noteq> Some NA)"
    then have "r ''Vaccination'' = Some NA \<or> r ''Medication'' = Some NA" by blast
    with that have "care_records lib (care_df lib t) = Inl TypeError"
      by (rule care_records_raises)
    with c show False by simp
  qed
  with care_records_Inr(1) [OF c]
  show "care_df lib t \<noteq> [] \<and>
     (\<forall>r\<in>set (care_df lib t). r ''Vaccination'' \<noteq> Some NA \<and> r ''Medication'' \<noteq> Some NA)"
    by blast
next
  assume "care_df lib t \<noteq> [] \<and>
     (\<forall>r\<in>set (care_df lib t). r ''Vaccination'' \<noteq> Some NA \<and> r ''Medication'' \<noteq> Some NA)"
  then obtain rs where "care_records lib (care_df lib t) = Inr rs"
    using care_records_returns [of "care_df lib t" lib] by blast
  from analyze_returns [OF this] show "\<exists>out. analyze lib t = Inr out" by blast
qed

lemma concat_map_single:
  assumes "distinct cols" and "a \<in> set cols" and "\<forall>c\<in>set cols. c \<noteq> a \<longrightarrow> f c = []"
  shows "concat (map f cols) = f a"
  using assms
proof (induction cols)
  case Nil
  then show ?case by simp
next
  case (Cons c cols)
  show ?case
  proof (cases "c = a")
    case True
    with Cons.prems have "\<forall>c\<in>set cols. f c = []" by auto
    then have "concat (map f cols) = []" by simp
    with True show ?thesis by simp
  next
    case False
    with Cons show ?thesis by auto
  qed
qed

lemma qualifying_cols_distinct: "distinct qualifying_cols"
  by (simp add: qualifying_cols_eq)

lemma example_lib_not_blank:
  "\<not> blank example_lib (Some (Num 3))" "\<not> blank example_lib (Some (Num (- 5)))"
  by (simp_all add: blank_def example_lib_def int_str_def nat_str.simps strip_def whitespace_def)

lemma text_not_blank:
  "\<not> blank lib (Some (Text ''A1''))" "\<not> blank lib (Some (Text ''2024-01-01''))"
  "\<not> blank lib (Some (Text ''F1''))" "\<not> blank lib (Some (Text ''S1''))"
  "\<not> blank lib (Some (Text ''F2''))" "\<not> blank lib (Some (Text ''T1''))"
  by (simp_all add: blank_def strip_def whitespace_def)

lemma not_negative: "\<not> negative (Some (Num 3))" "\<not> negative (Some (Text s))"
  by (simp_all add: negative_def)

lemma valid_operational_row_normalized:
  "map (normalize_row lib valid_operational_row) (qualifying_cols @ [''Flock'', ''Date'']) =
     [Some (Num 3), Some (Num 3), Some (Num 3), Some (Text ''F1''), Some (Text ''S1''),
      Some (Num 3), Some (Num 3), Some (Num 3), Some (Text ''F2''), Some (Num 3), Some (Num 3),
      Some (Num 3), Some (Text ''T1''), Some (Num 3), Some (Num 3),
      Some (Text ''A1''), Some (Text ''2024-01-01'')]"
  by (simp add: qualifying_cols_eq normalize_row_apply numeric_cols_eq or_NA_def
      REQUIRED_OPERATIONAL_COLS_def valid_operational_row_def)

lemma normalize_row_upd_other:
  "c \<noteq> a \<Longrightarrow> normalize_row lib (r(a \<mapsto> v)) c = normalize_row lib r c"
  by (simp add: normalize_row_apply)

lemma valid_operational_row_values:
  assumes "c \<in> set (qualifying_cols @ [''Flock'', ''Date''])"
  shows "\<not> blank example_lib (normalize_row example_lib valid_operational_row c) \<and>
         \<not> negative (normalize_row example_lib valid_operational_row c)"
proof -
  let ?r = "normalize_row example_lib valid_operational_row"
  from assms have "?r c \<in> set (map ?r (qualifying_cols @ [''Flock'', ''Date'']))"
    by (simp only: set_map) (rule imageI)
  then have "?r c \<in> {Some (Num 3), Some (Text ''F1''), Some (Text ''S1''), Some (Text ''F2''),
      Some (Text ''T1''), Some (Text ''A1''), Some (Text ''2024-01-01'')}"
    by (simp only: valid_operational_row_normalized) auto
  then show ?thesis
    using example_lib_not_blank(1) text_not_blank [of example_lib] not_negative
    by auto
qed

lemma valid_operational_row_messages:
  "operational_messages example_lib (normalize_row example_lib valid_operational_row) = []"
proof -
  have "operational_message example_lib (normalize_row example_lib valid_operational_row) c = []"
    if "c \<in> set qualifying_cols" for c
  proof -
    from that have "c \<in> set (qualifying_cols @ [''Flock'', ''Date''])" by auto
    from valid_operational_row_values [OF this] show ?thesis
      by (simp add: operational_message_def)
  qed
  moreover
  have "missing_message example_lib (normalize_row example_lib valid_operational_row) c = []"
    if "c \<in> set [''Flock'', ''Date'']" for c
  proof -
    from that have "c \<in> set (qualifying_cols @ [''Flock'', ''Date''])" by auto
    from valid_operational_row_values [OF this] show ?thesis
      by (simp add: missing_message_def)
  qed
  ultimately show ?thesis
    by (simp add: operational_messages_def)
qed

lemma valid_operational_row_check:
  "check_operational_row example_lib (normalize_row example_lib valid_operational_row) = None"
  by (simp add: check_operational_row_eq valid_operational_row_messages join_errors_def)

lemma duplicate_sheet_flags:
  "duplicated (map operational_key (operational_df lib duplicate_sheet)) = [True, True]"
  by (simp add: duplicate_sheet_frames duplicated_def)

lemma single_not_duplicated: "duplicated [k] = [False]"
  by (simp add: duplicated_def)

lemma duplicate_sheet_records:
  assumes "analyze example_lib duplicate_sheet = Inr out"
  shows "length (operational_data out) = 2"
    and "operational_data out ! 0 =
           operational_record (normalize_row example_lib valid_operational_row) True None"
    and "operational_data out ! 1 =
           operational_record (normalize_row example_lib valid_operational_row) True None"
proof -
  show "length (operational_data out) = 2"
    using operational_data_nth(1) [OF assms] by (simp add: duplicate_sheet_frames)
  have "0 < length (operational_df example_lib duplicate_sheet)"
    by (simp add: duplicate_sheet_frames)
  from operational_data_nth(2) [OF assms this]
  show "operational_data out ! 0 =
           operational_record (normalize_row example_lib valid_operational_row) True None"
    by (simp add: duplicate_sheet_flags)
       (simp add: duplicate_sheet_frames valid_operational_row_check)
  have "1 < length (operational_df example_lib duplicate_sheet)"
    by (simp add: duplicate_sheet_frames)
  from operational_data_nth(2) [OF assms this]
  show "operational_data out ! 1 =
           operational_record (normalize_row example_lib valid_operational_row) True None"
    by (simp add: duplicate_sheet_flags)
       (simp add: duplicate_sheet_frames valid_operational_row_check)
qed

lemma care_key_care_row:
  "care_key lib (normalize_row lib care_row) =
     [''A1'', ''2024-01-02'', ''NDV'', [], [], [], ''AMOXICILLIN'', [], [], []]"
  by (simp add: care_key_def normalize_row_apply numeric_cols_eq or_NA_def
      REQUIRED_OPERATIONAL_COLS_def REQUIRED_CARE_COLS_def care_row_def pd_notna_def
      strip_def whitespace_def upper_def upper_char_def)

lemma example_rows_flock:
  "normalize_row lib valid_operational_row ''Flock'' = Some (Text ''A1'')"
  "normalize_row lib care_row ''Flock'' = Some (Text ''A1'')"
  by (simp_all add: normalize_row_apply numeric_cols_eq or_NA_def
      REQUIRED_OPERATIONAL_COLS_def valid_operational_row_def care_row_def)

lemma duplicate_sheet_filters:
  "filter (\<lambda>r. is_operational_row lib (normalize_row lib r)) duplicate_sheet =
     [valid_operational_row, valid_operational_row]"
  "filter (\<lambda>r. \<not> is_operational_row lib (normalize_row lib r)) duplicate_sheet = [care_row]"
  by (simp_all add: duplicate_sheet_def care_row_is_care valid_operational_row_is_operational)

lemma carriesD:
  "carries rec r \<Longrightarrow>
   c \<notin> set [''care_key'', ''Duplicate Error'', ''Error Details'', ''note'', ''has_error''] \<Longrightarrow>
   rec c = passed_through (r c)"
  by (simp add: carries_def)

lemma analyze_without_column_raises:
  assumes "t \<noteq> []" and "\<forall>r\<in>set t. r ''Vaccination'' = None \<or> r ''Medication'' = None"
  shows "\<exists>e. analyze lib t = Inl e"
proof (cases "care_df lib t = []")
  case True
  then have "care_records lib (care_df lib t) = Inl KeyError"
    by (simp add: care_records_def)
  then show ?thesis using analyze_raises by blast
next
  case False
  then obtain r' where r': "r' \<in> set (care_df lib t)"
    by (cases "care_df lib t") auto
  then obtain r where r: "r \<in> set t" "r' = normalize_row lib r"
    by (auto simp: care_df_def normalize_def)
  with assms(2) have "r' ''Vaccination'' = Some NA \<or> r' ''Medication'' = Some NA"
    by (auto simp: normalize_row_care_cols or_NA_def)
  with r' have "care_records lib (care_df lib t) = Inl TypeError"
    by (rule care_records_raises)
  then show ?thesis using analyze_raises by blast
qed

lemma row_without_vaccination_absent: "\<forall>c\<in>set qualifying_cols. row_without_vaccination c = None"
  by (simp add: qualifying_cols_eq row_without_vaccination_def)

lemma care_row_empty_cells_absent: "\<forall>c\<in>set qualifying_cols. care_row_empty_cells c = None"
  by (simp add: qualifying_cols_eq care_row_empty_cells_def)

lemma care_row_empty_cells_cols:
  "normalize_row lib care_row_empty_cells ''Vaccination'' = Some NaN"
  "normalize_row lib care_row_empty_cells ''Creation User ID'' = Some (Text ''u1'')"
  "normalize_row lib care_row_empty_cells ''Medication'' = Some NaN"
  "normalize_row lib care_row_empty_cells ''Vacc Method'' = Some (Text ''spray'')"
  "normalize_row lib care_row_empty_cells ''Vacc Type'' = Some (Text ''live'')"
  "normalize_row lib care_row_empty_cells ''VaccinevDoze'' = Some (Text ''1 ml'')"
  "normalize_row lib care_row_empty_cells ''Medication Batch'' = Some (Text ''B7'')"
  "normalize_row lib care_row_empty_cells ''Concentration %'' = Some (Text ''5'')"
  "normalize_row lib care_row_empty_cells ''Record Source Type'' = Some (Text ''manual'')"
  "normalize_row lib care_row_empty_cells ''Medication Dose'' = Some (Text ''2 ml'')"
  "normalize_row lib care_row_empty_cells ''Medication Exp Date'' = Some (Text ''2025-01-01'')"
  "normalize_row lib care_row_empty_cells ''Doctor Name'' = Some (Text ''Dr Sami'')"
  "normalize_row lib care_row_empty_cells ''Doses Unit'' = Some (Text ''ml'')"
  "normalize_row lib care_row_empty_cells ''Produced PS_Nest_HE'' = Some (Text ''12'')"
  "normalize_row lib care_row_empty_cells ''Vaccine Name'' = Some (Text ''NDV'')"
  by (simp_all add: normalize_row_apply numeric_cols_eq or_NA_def REQUIRED_OPERATIONAL_COLS_def
      REQUIRED_CARE_COLS_def care_row_empty_cells_def)

lemma care_row_empty_cells_check:
  "check_care_row lib (normalize_row lib care_row_empty_cells) = Inr (None, [])"
  by (simp add: check_care_row_def REQUIRED_CARE_COLS_def care_row_empty_cells_cols py_or_def
      strip_def whitespace_def)

section \<open>Row classifier\<close>

text \<open>
  Claim C7. A row is operational if and only if at least one column of
  \<open>RequiredOperational\<close>, excluding \<open>OptionalOperational\<close> and \<open>{Flock, Date}\<close>, holds a
  present, truthy value (a number other than zero, or a text whose trimmed form is none of
  \<open>""\<close>, \<open>"0"\<close>, \<open>"nan"\<close>, \<open>"NaN"\<close>); the rows of the frame in which no such column is
  truthy make up the care frame, the others the operational frame.
\<close>

theorem is_operational_row_truthy:
  "(is_operational_row lib r \<longleftrightarrow> (\<exists>c\<in>set qualifying_cols. truthy (r c))) \<and>
   operational_df lib t =
     filter (\<lambda>r. \<exists>c\<in>set qualifying_cols. truthy (r c)) (normalize lib t) \<and>
   care_df lib t =
     filter (\<lambda>r. \<not> (\<exists>c\<in>set qualifying_cols. truthy (r c))) (normalize lib t)"
proof -
  have "is_operational_row lib = (\<lambda>r. \<exists>c\<in>set qualifying_cols. truthy (r c))"
    by (rule ext) (rule is_operational_row_iff)
  then show ?thesis
    by (simp only: operational_df_def care_df_def)
qed

theorem is_operational_row_truthy_witness:
  "truthy (normalize_row example_lib valid_operational_row ''Light intensity %'') \<and>
   is_operational_row example_lib (normalize_row example_lib valid_operational_row)"
proof -
  have c: "''Light intensity %'' \<in> set qualifying_cols"
    by (simp add: qualifying_cols_eq)
  have v: "normalize_row example_lib valid_operational_row ''Light intensity %'' = Some (Num 3)"
    by (rule normalize_row_Num) (simp add: valid_operational_row_def)
  have t: "truthy (normalize_row example_lib valid_operational_row ''Light intensity %'')"
    by (simp add: v truthy_def)
  with c have "\<exists>c\<in>set qualifying_cols.
      truthy (normalize_row example_lib valid_operational_row c)"
    by blast
  then have "is_operational_row example_lib (normalize_row example_lib valid_operational_row)"
    using is_operational_row_truthy
      [of example_lib "normalize_row example_lib valid_operational_row" "[]"]
    by blast
  with t show ?thesis by blast
qed

section \<open>Partition of the frame\<close>

text \<open>
  On the sheets for which the engine returns, the lengths of \<open>operational_data\<close> and
  \<open>care_data\<close> sum to the number of input rows; the records of \<open>operational_data\<close> carry,
  in input order, the rows classified as operational, and those of \<open>care_data\<close> carry, in
  input order, the remaining rows. The engine returns for no sheet without a care row
  (see \<open>analyze_returns_iff\<close> and the last section).
\<close>

lemma partition_complete:
  assumes "analyze lib t = Inr out"
  shows "length (operational_data out) + length (care_data out) = length t \<and>
         list_all2 (\<lambda>rec r. carries rec (normalize_row lib r)) (operational_data out)
           (filter (\<lambda>r. is_operational_row lib (normalize_row lib r)) t) \<and>
         list_all2 (\<lambda>rec r. carries rec (normalize_row lib r)) (care_data out)
           (filter (\<lambda>r. \<not> is_operational_row lib (normalize_row lib r)) t)"
proof -
  let ?P = "\<lambda>r. is_operational_row lib (normalize_row lib r)"
  have ops: "operational_df lib t = map (normalize_row lib) (filter ?P t)"
    by (simp add: operational_df_def normalize_def filter_map comp_def)
  have cares: "care_df lib t = map (normalize_row lib) (filter (\<lambda>r. \<not> ?P r) t)"
    by (simp add: care_df_def normalize_def filter_map comp_def)
  have lo: "length (operational_data out) = length (filter ?P t)"
    using operational_data_nth(1) [OF assms] by (simp add: ops)
  have lc: "length (care_data out) = length (filter (\<lambda>r. \<not> ?P r) t)"
    using care_data_nth(2) [OF assms] by (simp add: cares)
  have len: "length (operational_data out) + length (care_data out) = length t"
    by (simp only: lo lc sum_length_filter_compl)
  have a: "list_all2 (\<lambda>rec r. carries rec (normalize_row lib r)) (operational_data out)
             (filter ?P t)"
  proof (rule list_all2_all_nthI)
    show "length (operational_data out) = length (filter ?P t)" by (rule lo)
  next
    fix i assume "i < length (operational_data out)"
    then have i: "i < length (operational_df lib t)"
      using operational_data_nth(1) [OF assms] by simp
    then have "operational_df lib t ! i = normalize_row lib (filter ?P t ! i)"
      by (simp add: ops)
    with operational_data_nth(2) [OF assms i]
    show "carries (operational_data out ! i) (normalize_row lib (filter ?P t ! i))"
      by (simp add: operational_record_carries)
  qed
  have b: "list_all2 (\<lambda>rec r. carries rec (normalize_row lib r)) (care_data out)
             (filter (\<lambda>r. \<not> ?P r) t)"
  proof (rule list_all2_all_nthI)
    show "length (care_data out) = length (filter (\<lambda>r. \<not> ?P r) t)" by (rule lc)
  next
    fix i assume "i < length (care_data out)"
    then have i: "i < length (care_df lib t)"
      using care_data_nth(2) [OF assms] by simp
    then have "care_df lib t ! i = normalize_row lib (filter (\<lambda>r. \<not> ?P r) t ! i)"
      by (simp add: cares)
    with care_data_nth(3) [OF assms i]
    show "carries (care_data out ! i) (normalize_row lib (filter (\<lambda>r. \<not> ?P r) t ! i))"
      by (auto simp: care_record_carries)
  qed
  from len a b show ?thesis by blast
qed

section \<open>Duplicate flags\<close>

text \<open>
  Claim C9. Whenever the engine returns, the \<open>Duplicate Error\<close> flag of an operational
  row is true exactly when another row of the operational frame has the same
  \<open>(Flock, Date)\<close> key; two keys are the same when both fields are, and two values of a
  field are the same when they are equal or both missing. Every row of such a group is
  flagged, whichever comes first.
\<close>

theorem duplicate_error_iff:
  assumes "analyze lib t = Inr out" and "i < length (operational_df lib t)"
  shows "(operational_data out ! i) ''Duplicate Error'' =
           Some (Flag (\<exists>j<length (operational_df lib t). j \<noteq> i \<and>
              operational_key (operational_df lib t ! j) =
              operational_key (operational_df lib t ! i))) \<and>
         (operational_key r = operational_key r' \<longleftrightarrow>
            same_key_value (r ''Flock'') (r' ''Flock'') \<and>
            same_key_value (r ''Date'') (r' ''Date''))"
proof -
  let ?ks = "map operational_key (operational_df lib t)"
  have "i < length ?ks" using assms(2) by simp
  then have "duplicated ?ks ! i = (\<exists>j<length ?ks. j \<noteq> i \<and> ?ks ! j = ?ks ! i)"
    by (simp only: nth_duplicated count_list_ge2_iff)
  also have "\<dots> = (\<exists>j<length (operational_df lib t). j \<noteq> i \<and>
              operational_key (operational_df lib t ! j) =
              operational_key (operational_df lib t ! i))"
    using assms(2) by auto
  finally have d: "duplicated ?ks ! i = (\<exists>j<length (operational_df lib t). j \<noteq> i \<and>
              operational_key (operational_df lib t ! j) =
              operational_key (operational_df lib t ! i))" .
  have a: "(operational_data out ! i) ''Duplicate Error'' = Some (Flag (duplicated ?ks ! i))"
    by (simp only: operational_data_nth(2) [OF assms] operational_record_fields(1))
  have k: "na_key a = na_key b \<longleftrightarrow> same_key_value a b" for a b
    by (cases a; cases b) (auto simp: na_key_def same_key_value_def)
  have "operational_key r = operational_key r' \<longleftrightarrow>
            same_key_value (r ''Flock'') (r' ''Flock'') \<and>
            same_key_value (r ''Date'') (r' ''Date'')"
    by (simp add: operational_key_def k)
  with a d show ?thesis by simp
qed

section \<open>The error flag\<close>

text \<open>
  Claim C5. Whenever the engine returns, every record of either output table has a
  boolean \<open>has_error\<close>, a boolean \<open>Duplicate Error\<close> and an \<open>Error Details\<close> value, and
  \<open>has_error\<close> is true if and only if \<open>Error Details\<close> is non-empty (neither \<open>None\<close> nor
  the empty string) or \<open>Duplicate Error\<close> is true.
\<close>

theorem has_error_iff:
  assumes "analyze lib t = Inr out"
    and "rec \<in> set (operational_data out) \<union> set (care_data out)"
  shows "\<exists>h d e. rec ''has_error'' = Some (Flag h) \<and>
           rec ''Duplicate Error'' = Some (Flag d) \<and>
           rec ''Error Details'' = Some e \<and>
           (h \<longleftrightarrow> nonempty_details e \<or> d)"
proof -
  from assms(2) consider
      (op) i where "i < length (operational_data out)" "rec = operational_data out ! i"
    | (care) i where "i < length (care_data out)" "rec = care_data out ! i"
    by (auto simp: in_set_conv_nth)
  then show ?thesis
  proof cases
    case op
    then have i: "i < length (operational_df lib t)"
      using operational_data_nth(1) [OF assms(1)] by simp
    show ?thesis
      unfolding op(2) operational_data_nth(2) [OF assms(1) i]
      by (rule operational_record_has_error)
  next
    case care
    then have i: "i < length (care_df lib t)"
      using care_data_nth(2) [OF assms(1)] by simp
    from care_data_nth(3) [OF assms(1) i] obtain e n where
      "care_data out ! i =
         care_record (care_df lib t ! i) (care_key lib (care_df lib t ! i))
           (duplicated (map (care_key lib) (care_df lib t)) ! i) e n"
      by blast
    then show ?thesis
      unfolding care(2) by (simp only: care_record_has_error)
  qed
qed

section \<open>The care key in the output\<close>

text \<open>
  Claim C10. Whenever the engine returns, every record of \<open>care_data\<close> has a field
  \<open>care_key\<close> that holds the key tuple of its row. The engine adds no such field to the
  records of \<open>operational_data\<close>: there the name \<open>care_key\<close> holds what the input row
  holds under it, which is nothing when the sheet has no column of that name, and never
  a key tuple.
\<close>

theorem care_key_field:
  assumes "analyze lib t = Inr out"
  shows "(\<forall>i<length (care_data out).
            (care_data out ! i) ''care_key'' = Some (Tuple (care_key lib (care_df lib t ! i)))) \<and>
         list_all2 (\<lambda>rec r. rec ''care_key'' = passed_through (r ''care_key'') \<and>
                      (\<forall>k. rec ''care_key'' \<noteq> Some (Tuple k)) \<and>
                      (r ''care_key'' = None \<longrightarrow> rec ''care_key'' = None))
           (operational_data out)
           (filter (\<lambda>r. is_operational_row lib (normalize_row lib r)) t)"
proof -
  let ?P = "\<lambda>r. is_operational_row lib (normalize_row lib r)"
  have ops: "operational_df lib t = map (normalize_row lib) (filter ?P t)"
    by (simp add: operational_df_def normalize_def filter_map comp_def)
  have other: "normalize_row lib r ''care_key'' = r ''care_key''" for r
    by (rule normalize_row_other)
       (simp add: REQUIRED_OPERATIONAL_COLS_def REQUIRED_CARE_COLS_def)
  have a: "(care_data out ! i) ''care_key'' = Some (Tuple (care_key lib (care_df lib t ! i)))"
    if "i < length (care_data out)" for i
  proof -
    from that have i: "i < length (care_df lib t)"
      using care_data_nth(2) [OF assms] by simp
    from care_data_nth(3) [OF assms i] show ?thesis
      by (auto simp only: care_record_fields(1))
  qed
  have b: "list_all2 (\<lambda>rec r. rec ''care_key'' = passed_through (r ''care_key'') \<and>
                      (\<forall>k. rec ''care_key'' \<noteq> Some (Tuple k)) \<and>
                      (r ''care_key'' = None \<longrightarrow> rec ''care_key'' = None))
           (operational_data out) (filter ?P t)"
  proof (rule list_all2_all_nthI)
    show "length (operational_data out) = length (filter ?P t)"
      using operational_data_nth(1) [OF assms] by (simp add: ops)
  next
    fix i assume "i < length (operational_data out)"
    then have i: "i < length (operational_df lib t)"
      using operational_data_nth(1) [OF assms] by simp
    then have r: "operational_df lib t ! i = normalize_row lib (filter ?P t ! i)"
      by (simp add: ops)
    have "(operational_data out ! i) ''care_key'' = passed_through ((filter ?P t ! i) ''care_key'')"
      unfolding operational_data_nth(2) [OF assms i] r
      by (simp add: operational_record_fields(4) other)
    then show "(operational_data out ! i) ''care_key'' =
                 passed_through ((filter ?P t ! i) ''care_key'') \<and>
               (\<forall>k. (operational_data out ! i) ''care_key'' \<noteq> Some (Tuple k)) \<and>
               ((filter ?P t ! i) ''care_key'' = None \<longrightarrow>
                  (operational_data out ! i) ''care_key'' = None)"
      by (simp add: passed_through_not_Tuple) (simp add: passed_through_def)
  qed
  from a b show ?thesis by blast
qed

section \<open>Operational validator\<close>

text \<open>
  Claim C8. The validator of an operational row returns the messages of the operational
  rule joined with \<open>"; "\<close>, and \<open>None\<close> when there is none: \<open>Missing col\<close> for each
  qualifying column whose value is missing or trim-empty, otherwise
  \<open>Negative value in col\<close> when the value is a negative number, then \<open>Missing Flock\<close> and
  \<open>Missing Date\<close> under the same test. In particular, whenever the engine returns, a row
  of the operational frame whose only violation is \<open>Animal Feed Consumed = -5\<close> (the
  number not rendered blank by \<open>str\<close>, every other qualifying column, \<open>Flock\<close> and
  \<open>Date\<close> neither blank nor negative, and no other row with its key) has
  \<open>Error Details\<close> exactly
  \<open>Negative value in Animal Feed Consumed\<close> and \<open>has_error\<close> true.
\<close>

theorem check_operational_row_messages:
  "check_operational_row lib r = join_errors (operational_messages lib r) \<and>
   (analyze lib t = Inr out \<and> i < length (operational_df lib t) \<and>
    operational_df lib t ! i = r \<and>
    r ''Animal Feed Consumed'' = Some (Num (- 5)) \<and> \<not> blank lib (Some (Num (- 5))) \<and>
    (\<forall>c\<in>set qualifying_cols. c \<noteq> ''Animal Feed Consumed'' \<longrightarrow>
        \<not> blank lib (r c) \<and> \<not> negative (r c)) \<and>
    \<not> blank lib (r ''Flock'') \<and> \<not> blank lib (r ''Date'') \<and>
    \<not> (\<exists>j<length (operational_df lib t). j \<noteq> i \<and>
          operational_key (operational_df lib t ! j) = operational_key r)
    \<longrightarrow> (operational_data out ! i) ''Error Details'' =
          Some (Str ''Negative value in Animal Feed Consumed'') \<and>
        (operational_data out ! i) ''has_error'' = Some (Flag True))"
proof (intro conjI impI)
  show "check_operational_row lib r = join_errors (operational_messages lib r)"
    by (rule check_operational_row_eq)
next
  assume h: "analyze lib t = Inr out \<and> i < length (operational_df lib t) \<and>
    operational_df lib t ! i = r \<and>
    r ''Animal Feed Consumed'' = Some (Num (- 5)) \<and> \<not> blank lib (Some (Num (- 5))) \<and>
    (\<forall>c\<in>set qualifying_cols. c \<noteq> ''Animal Feed Consumed'' \<longrightarrow>
        \<not> blank lib (r c) \<and> \<not> negative (r c)) \<and>
    \<not> blank lib (r ''Flock'') \<and> \<not> blank lib (r ''Date'') \<and>
    \<not> (\<exists>j<length (operational_df lib t). j \<noteq> i \<and>
          operational_key (operational_df lib t ! j) = operational_key r)"
  then have out: "analyze lib t = Inr out" and i: "i < length (operational_df lib t)"
    and r: "operational_df lib t ! i = r"
    and feed: "r ''Animal Feed Consumed'' = Some (Num (- 5))"
    and nb: "\<not> blank lib (Some (Num (- 5)))"
    and others: "\<forall>c\<in>set qualifying_cols. c \<noteq> ''Animal Feed Consumed'' \<longrightarrow>
        \<not> blank lib (r c) \<and> \<not> negative (r c)"
    and keys: "\<not> blank lib (r ''Flock'')" "\<not> blank lib (r ''Date'')"
    and single: "\<not> (\<exists>j<length (operational_df lib t). j \<noteq> i \<and>
          operational_key (operational_df lib t ! j) = operational_key r)"
    by blast+
  have "''Animal Feed Consumed'' \<in> set qualifying_cols"
    by (simp add: qualifying_cols_eq)
  moreover have "\<forall>c\<in>set qualifying_cols. c \<noteq> ''Animal Feed Consumed'' \<longrightarrow>
      operational_message lib r c = []"
    using others by (simp add: operational_message_def)
  ultimately have "concat (map (operational_message lib r) qualifying_cols) =
      operational_message lib r ''Animal Feed Consumed''"
    using qualifying_cols_distinct by (intro concat_map_single)
  also have "\<dots> = [''Negative value in Animal Feed Consumed'']"
    using feed nb by (simp add: operational_message_def negative_def)
  finally have "operational_messages lib r = [''Negative value in Animal Feed Consumed'']"
    using keys by (simp add: operational_messages_def missing_message_def)
  then have e: "check_operational_row lib r = Some ''Negative value in Animal Feed Consumed''"
    by (simp add: check_operational_row_eq join_errors_def)
  let ?ks = "map operational_key (operational_df lib t)"
  have "i < length ?ks" using i by simp
  then have "duplicated ?ks ! i = (\<exists>j<length ?ks. j \<noteq> i \<and> ?ks ! j = ?ks ! i)"
    by (simp only: nth_duplicated count_list_ge2_iff)
  also have "\<dots> = (\<exists>j<length (operational_df lib t). j \<noteq> i \<and>
          operational_key (operational_df lib t ! j) = operational_key r)"
    using i r by auto
  finally have d: "\<not> duplicated ?ks ! i" using single by simp
  have rec: "operational_data out ! i =
      operational_record r False (Some ''Negative value in Animal Feed Consumed'')"
    using operational_data_nth(2) [OF out i] d e r by simp
  show "(operational_data out ! i) ''Error Details'' =
          Some (Str ''Negative value in Animal Feed Consumed'')"
    by (simp only: rec operational_record_fields(2) if_False details_val_def option.case)
  show "(operational_data out ! i) ''has_error'' = Some (Flag True)"
    by (simp only: rec operational_record_fields(3)) simp
qed

theorem check_operational_row_messages_witness:
  "\<exists>out. analyze example_lib negative_feed_sheet = Inr out \<and>
     check_operational_row example_lib (normalize_row example_lib negative_feed_row) =
       Some ''Negative value in Animal Feed Consumed'' \<and>
     (operational_data out ! 0) ''Error Details'' =
       Some (Str ''Negative value in Animal Feed Consumed'') \<and>
     (operational_data out ! 0) ''has_error'' = Some (Flag True)"
proof -
  let ?r = "normalize_row example_lib negative_feed_row"
  obtain out where out: "analyze example_lib negative_feed_sheet = Inr out"
    using negative_feed_sheet_returns by blast
  have i: "0 < length (operational_df example_lib negative_feed_sheet)"
    and r: "operational_df example_lib negative_feed_sheet ! 0 = ?r"
    by (simp_all add: negative_feed_sheet_frames)
  have feed: "?r ''Animal Feed Consumed'' = Some (Num (- 5))"
    by (rule normalize_row_Num) (simp add: negative_feed_row_def)
  have same: "?r c = normalize_row example_lib valid_operational_row c"
    if "c \<noteq> ''Animal Feed Consumed''" for c
    unfolding negative_feed_row_def using that by (rule normalize_row_upd_other)
  have others: "\<forall>c\<in>set qualifying_cols. c \<noteq> ''Animal Feed Consumed'' \<longrightarrow>
        \<not> blank example_lib (?r c) \<and> \<not> negative (?r c)"
  proof (intro ballI impI)
    fix c assume c: "c \<in> set qualifying_cols" "c \<noteq> ''Animal Feed Consumed''"
    from c(1) have "c \<in> set (qualifying_cols @ [''Flock'', ''Date''])" by auto
    from valid_operational_row_values [OF this] same [OF c(2)]
    show "\<not> blank example_lib (?r c) \<and> \<not> negative (?r c)" by simp
  qed
  have "\<not> blank example_lib (normalize_row example_lib valid_operational_row c)"
    if "c \<in> set [''Flock'', ''Date'']" for c
  proof -
    from that have "c \<in> set (qualifying_cols @ [''Flock'', ''Date''])" by auto
    from valid_operational_row_values [OF this] show ?thesis by simp
  qed
  then have keys: "\<not> blank example_lib (?r ''Flock'')" "\<not> blank example_lib (?r ''Date'')"
    by (simp_all add: same)
  have single: "\<not> (\<exists>j<length (operational_df example_lib negative_feed_sheet). j \<noteq> 0 \<and>
      operational_key (operational_df example_lib negative_feed_sheet ! j) = operational_key ?r)"
    by (simp add: negative_feed_sheet_frames)
  note claim = check_operational_row_messages
    [of example_lib ?r negative_feed_sheet out 0]
  from claim out i r feed example_lib_not_blank(2) others keys single
  have a: "(operational_data out ! 0) ''Error Details'' =
          Some (Str ''Negative value in Animal Feed Consumed'') \<and>
        (operational_data out ! 0) ''has_error'' = Some (Flag True)"
    by blast
  have "operational_data out ! 0 =
      operational_record ?r
        (duplicated (map operational_key (operational_df example_lib negative_feed_sheet)) ! 0)
        (check_operational_row example_lib ?r)"
    using operational_data_nth(2) [OF out i] r by simp
  then have "operational_data out ! 0 =
      operational_record ?r False (check_operational_row example_lib ?r)"
    by (simp add: negative_feed_sheet_frames single_not_duplicated)
  with a have "details_val (check_operational_row example_lib ?r) =
      Str ''Negative value in Animal Feed Consumed''"
    by (simp add: operational_record_fields(2))
  then have "check_operational_row example_lib ?r = Some ''Negative value in Animal Feed Consumed''"
    by (cases "check_operational_row example_lib ?r") (simp_all add: details_val_def)
  with out a show ?thesis by blast
qed

section \<open>The claims on an example sheet\<close>

theorem duplicate_error_iff_witness:
  "\<exists>out. analyze example_lib duplicate_sheet = Inr out \<and>
     (operational_data out ! 0) ''Duplicate Error'' = Some (Flag True) \<and>
     (operational_data out ! 1) ''Duplicate Error'' = Some (Flag True)"
proof -
  obtain out where out: "analyze example_lib duplicate_sheet = Inr out"
    using duplicate_sheet_returns by blast
  let ?ops = "operational_df example_lib duplicate_sheet"
  have l: "0 < length ?ops" "1 < length ?ops"
    by (simp_all add: duplicate_sheet_frames)
  have e0: "\<exists>j<length ?ops. j \<noteq> 0 \<and> operational_key (?ops ! j) = operational_key (?ops ! 0)"
    by (rule exI [of _ 1]) (simp add: duplicate_sheet_frames)
  have e1: "\<exists>j<length ?ops. j \<noteq> 1 \<and> operational_key (?ops ! j) = operational_key (?ops ! 1)"
    by (rule exI [of _ 0]) (simp add: duplicate_sheet_frames)
  have a0: "(operational_data out ! 0) ''Duplicate Error'' =
      Some (Flag (\<exists>j<length ?ops. j \<noteq> 0 \<and> operational_key (?ops ! j) = operational_key (?ops ! 0)))"
    using duplicate_error_iff [OF out l(1)] by (rule conjunct1)
  have a1: "(operational_data out ! 1) ''Duplicate Error'' =
      Some (Flag (\<exists>j<length ?ops. j \<noteq> 1 \<and> operational_key (?ops ! j) = operational_key (?ops ! 1)))"
    using duplicate_error_iff [OF out l(2)] by (rule conjunct1)
  have "(operational_data out ! 0) ''Duplicate Error'' = Some (Flag True)"
    by (simp only: a0 eqTrueI [OF e0])
  moreover have "(operational_data out ! 1) ''Duplicate Error'' = Some (Flag True)"
    by (simp only: a1 eqTrueI [OF e1])
  ultimately show ?thesis using out by blast
qed

theorem has_error_iff_witness:
  "\<exists>out. analyze example_lib duplicate_sheet = Inr out \<and>
     operational_data out ! 0 \<in> set (operational_data out) \<union> set (care_data out) \<and>
     (operational_data out ! 0) ''Duplicate Error'' = Some (Flag True) \<and>
     (operational_data out ! 0) ''has_error'' = Some (Flag True)"
proof -
  obtain out where out: "analyze example_lib duplicate_sheet = Inr out"
    using duplicate_sheet_returns by blast
  have "0 < length (operational_data out)"
    by (simp add: duplicate_sheet_records(1) [OF out])
  then have mem: "operational_data out ! 0 \<in> set (operational_data out) \<union> set (care_data out)"
    by simp
  have d: "(operational_data out ! 0) ''Duplicate Error'' = Some (Flag True)"
    by (simp only: duplicate_sheet_records(2) [OF out] operational_record_fields(1))
  from has_error_iff [OF out mem] obtain h d' e where
    "(operational_data out ! 0) ''has_error'' = Some (Flag h)"
    "(operational_data out ! 0) ''Duplicate Error'' = Some (Flag d')"
    "h \<longleftrightarrow> nonempty_details e \<or> d'"
    by blast
  with d have "(operational_data out ! 0) ''has_error'' = Some (Flag True)"
    by simp
  with out mem d show ?thesis by blast
qed

lemma partition_complete_example:
  "\<exists>out. analyze example_lib duplicate_sheet = Inr out \<and>
     length (operational_data out) + length (care_data out) = 3 \<and>
     length (operational_data out) = 2 \<and> length (care_data out) = 1 \<and>
     (operational_data out ! 1) ''Flock'' = Some (Cell (Text ''A1'')) \<and>
     (care_data out ! 0) ''Flock'' = Some (Cell (Text ''A1''))"
proof -
  obtain out where out: "analyze example_lib duplicate_sheet = Inr out"
    using duplicate_sheet_returns by blast
  from partition_complete [OF out]
  have len: "length (operational_data out) + length (care_data out) = length duplicate_sheet"
    and ops: "list_all2 (\<lambda>rec r. carries rec (normalize_row example_lib r)) (operational_data out)
           [valid_operational_row, valid_operational_row]"
    and cares: "list_all2 (\<lambda>rec r. carries rec (normalize_row example_lib r)) (care_data out)
           [care_row]"
    by (simp_all only: duplicate_sheet_filters)
  from ops have lo: "length (operational_data out) = 2"
    by (auto dest: list_all2_lengthD)
  from cares have lc: "length (care_data out) = 1"
    by (auto dest: list_all2_lengthD)
  have names: "''Flock'' \<notin> set [''care_key'', ''Duplicate Error'', ''Error Details'', ''note'', ''has_error'']"
    by simp
  from ops lo have "carries (operational_data out ! 1) (normalize_row example_lib valid_operational_row)"
    by (auto dest: list_all2_nthD [where p = 1])
  from carriesD [OF this names]
  have a: "(operational_data out ! 1) ''Flock'' = Some (Cell (Text ''A1''))"
    by (simp add: example_rows_flock passed_through_def)
  from cares lc have "carries (care_data out ! 0) (normalize_row example_lib care_row)"
    by (auto dest: list_all2_nthD [where p = 0])
  from carriesD [OF this names]
  have b: "(care_data out ! 0) ''Flock'' = Some (Cell (Text ''A1''))"
    by (simp add: example_rows_flock passed_through_def)
  from len have "length (operational_data out) + length (care_data out) = 3"
    by (simp add: duplicate_sheet_def)
  with out lo lc a b show ?thesis by blast
qed

theorem care_key_field_witness:
  "\<exists>out. analyze example_lib duplicate_sheet = Inr out \<and>
     (care_data out ! 0) ''care_key'' =
       Some (Tuple [''A1'', ''2024-01-02'', ''NDV'', [], [], [], ''AMOXICILLIN'', [], [], []]) \<and>
     (operational_data out ! 0) ''care_key'' = None"
proof -
  obtain out where out: "analyze example_lib duplicate_sheet = Inr out"
    using duplicate_sheet_returns by blast
  note fields = care_key_field [OF out, unfolded duplicate_sheet_filters]
  from fields
  have cares: "\<forall>i<length (care_data out). (care_data out ! i) ''care_key'' =
        Some (Tuple (care_key example_lib (care_df example_lib duplicate_sheet ! i)))"
    and ops: "list_all2 (\<lambda>rec r. rec ''care_key'' = passed_through (r ''care_key'') \<and>
                      (\<forall>k. rec ''care_key'' \<noteq> Some (Tuple k)) \<and>
                      (r ''care_key'' = None \<longrightarrow> rec ''care_key'' = None))
           (operational_data out) [valid_operational_row, valid_operational_row]"
    by blast+
  have "length (care_data out) = 1"
    using care_data_nth(2) [OF out] by (simp add: duplicate_sheet_frames)
  with cares have a: "(care_data out ! 0) ''care_key'' =
       Some (Tuple [''A1'', ''2024-01-02'', ''NDV'', [], [], [], ''AMOXICILLIN'', [], [], []])"
    by (simp add: duplicate_sheet_frames care_key_care_row)
  have none: "valid_operational_row ''care_key'' = None"
    by (simp add: valid_operational_row_def)
  from ops have "length (operational_data out) = 2"
    by (auto dest: list_all2_lengthD)
  with ops have "valid_operational_row ''care_key'' = None \<longrightarrow>
      (operational_data out ! 0) ''care_key'' = None"
    by (auto dest: list_all2_nthD [where p = 0])
  with none have "(operational_data out ! 0) ''care_key'' = None" by blast
  with out a show ?thesis by blast
qed

section \<open>Where the code departs from the specification\<close>

text \<open>
  Claim C1 says that the engine processes every row of every parsed table without raising,
  also when the table lacks a catalog column. On a sheet with the columns \<open>Flock\<close>,
  \<open>Date\<close> and \<open>Medication\<close> only, line 110 fills \<open>Vaccination\<close> with \<open>pd.NA\<close>, the row is
  a care row, and \<open>row.get('Vaccination') or ''\<close> on line 77 raises \<open>TypeError\<close>: the
  engine returns nothing.
\<close>

theorem analyze_without_vaccination_raises:
  "analyze lib sheet_without_vaccination = Inl TypeError"
proof -
  let ?r = "normalize_row lib row_without_vaccination"
  have care: "\<not> is_operational_row lib ?r"
    using row_without_vaccination_absent by (rule not_operational_if_absent)
  have df: "care_df lib sheet_without_vaccination = [?r]"
    by (simp add: care_df_def normalize_def sheet_without_vaccination_def care)
  have na: "?r ''Vaccination'' = Some NA"
    by (simp add: normalize_row_care_cols or_NA_def row_without_vaccination_def)
  have "care_records lib (care_df lib sheet_without_vaccination) = Inl TypeError"
    by (rule care_records_raises [where r = ?r]) (simp_all add: df na)
  then show ?thesis
    by (rule analyze_raises)
qed

text \<open>
  Claim C2 says that a missing \<open>Vaccination\<close> or \<open>Medication\<close> is treated as the empty
  string, so that a care row with both missing gets the message
  \<open>Missing Vaccination and Medication\<close>. An empty cell of the sheet is NaN in the frame,
  NaN is true for \<open>or\<close>, and \<open>str\<close> makes it the text \<open>nan\<close>: on a care row whose two cells
  are empty and whose other care fields are filled in, the validator returns no error
  and no note, and the record has \<open>has_error\<close> false.
\<close>

theorem check_care_row_empty_cells:
  "check_care_row lib (normalize_row lib care_row_empty_cells) = Inr (None, []) \<and>
   (\<exists>out. analyze lib [care_row_empty_cells] = Inr out \<and>
      (care_data out ! 0) ''Error Details'' = Some Null \<and>
      (care_data out ! 0) ''note'' = Some (Str []) \<and>
      (care_data out ! 0) ''has_error'' = Some (Flag False))"
proof -
  let ?r = "normalize_row lib care_row_empty_cells"
  have cols: "?r ''Vaccination'' = Some NaN" "?r ''Medication'' = Some NaN"
    by (rule care_row_empty_cells_cols)+
  have chk: "check_care_row lib ?r = Inr (None, [])"
    by (rule care_row_empty_cells_check)
  have care: "\<not> is_operational_row lib ?r"
    using care_row_empty_cells_absent by (rule not_operational_if_absent)
  have df: "care_df lib [care_row_empty_cells] = [?r]"
    by (simp add: care_df_def normalize_def care)
  have "\<exists>rs. care_records lib [?r] = Inr rs"
    by (rule care_records_returns) (simp_all add: cols)
  then obtain rs where "care_records lib (care_df lib [care_row_empty_cells]) = Inr rs"
    by (auto simp only: df)
  from analyze_returns [OF this] obtain out where out: "analyze lib [care_row_empty_cells] = Inr out"
    by blast
  have "0 < length (care_df lib [care_row_empty_cells])"
    by (simp add: df)
  from care_data_nth(3) [OF out this] have
    "care_data out ! 0 = care_record ?r (care_key lib ?r) False None []"
    by (simp add: df chk single_not_duplicated)
  then have "(care_data out ! 0) ''Error Details'' = Some Null \<and>
      (care_data out ! 0) ''note'' = Some (Str []) \<and>
      (care_data out ! 0) ''has_error'' = Some (Flag False)"
    by (simp add: care_record_fields details_val_def)
  with chk out show ?thesis by blast
qed

text \<open>
  Claim C3 says that each of the ten fields of the care key is normalised with missing
  values becoming the empty string. The lambda of lines 131 to 142 guards eight of the
  fields with \<open>pd.notna\<close> and leaves \<open>Flock\<close> and \<open>Date\<close> unguarded: on a care row whose
  \<open>Flock\<close> and \<open>Date\<close> cells are empty the key starts with the texts \<open>NAN\<close> and \<open>nan\<close>,
  while the empty \<open>Medication\<close> cell of the same row gives the empty string.
\<close>

theorem care_key_missing_flock:
  "care_key lib (normalize_row lib care_row_no_flock) =
     [''NAN'', ''nan'', ''NDV'', [], [], [], [], [], [], []]"
  by (simp add: care_key_def normalize_row_apply numeric_cols_eq or_NA_def
      REQUIRED_OPERATIONAL_COLS_def REQUIRED_CARE_COLS_def care_row_no_flock_def pd_notna_def
      strip_def whitespace_def upper_def upper_char_def)

text \<open>
  Claim C4 says that the suffix is appended also when there were no error details, the
  result then starting with \<open>"; "\<close>. The validator returns \<open>None\<close> for a valid row, and
  \<open>astype(str)\<close> on lines 155 and 164 turns it into the text \<open>None\<close>: two valid
  operational rows with the same flock and date both get
  \<open>None; Duplicate Flock/Date\<close>.
\<close>

theorem duplicate_suffix_after_None:
  "\<exists>out. analyze example_lib duplicate_sheet = Inr out \<and>
     (operational_data out ! 0) ''Error Details'' = Some (Str ''None; Duplicate Flock/Date'') \<and>
     (operational_data out ! 1) ''Error Details'' = Some (Str ''None; Duplicate Flock/Date'')"
proof -
  obtain out where out: "analyze example_lib duplicate_sheet = Inr out"
    using duplicate_sheet_returns by blast
  have "operational_record r True None ''Error Details'' =
          Some (Str ''None; Duplicate Flock/Date'')" for r
    by (simp add: operational_record_fields(2) astype_str_def details_val_def)
  then have "(operational_data out ! 0) ''Error Details'' = Some (Str ''None; Duplicate Flock/Date'')"
    and "(operational_data out ! 1) ''Error Details'' = Some (Str ''None; Duplicate Flock/Date'')"
    by (simp_all only: duplicate_sheet_records(2,3) [OF out])
  with out show ?thesis by blast
qed

text \<open>
  Claim C6 says that for every input table each row appears in exactly one of
  \<open>operational_data\<close> and \<open>care_data\<close>, and that the two lengths sum to the input length.
  On a sheet without a care row the care frame is empty: lines 145 to 148 provide for
  that, but \<open>apply(..., result_type='expand')\<close> on line 158 then returns a copy of the
  empty frame, which has no column \<open>0\<close>, and line 159 raises \<open>KeyError\<close>. A sheet with one
  valid operational row gets no output tables at all.
\<close>

theorem analyze_operational_only_raises:
  "analyze lib operational_only_sheet = Inl KeyError"
proof -
  have "care_df lib operational_only_sheet = []"
    by (simp add: care_df_def normalize_def operational_only_sheet_def
        valid_operational_row_is_operational)
  then have "care_records lib (care_df lib operational_only_sheet) = Inl KeyError"
    by (simp add: care_records_def)
  then show ?thesis by (rule analyze_raises)
qed

end
